theory Spec2Isabelle
  imports Complex_Main "HOL-Library.Sublist"
begin

section \<open>Python values used by the script\<close>

text \<open>
  The script \<^verbatim>\<open>hdf5_generators.py\<close> is a linear sequence of calls into a
  deep-learning framework.  The embedding below follows the script statement by
  statement.  What the script computes itself (the epoch count, the subset sizes, the
  file paths, the order of the calls, the trainable flags it sets) is translated from
  the source; what the framework does behind a call is kept to the part of its
  documented behaviour that the script relies on, and each such definition says so.
\<close>

datatype error = OverflowError | ValueError | OSError | KeyError | RuntimeError

subsection \<open>\<^verbatim>\<open>int * float\<close> and \<^verbatim>\<open>int(float)\<close>\<close>

text \<open>
  \<^verbatim>\<open>int(args.tiles*0.8)\<close> multiplies a Python integer by a double.  A double is
  modelled by a pair \<open>(m, e)\<close> that denotes \<open>m * 2 ^ e\<close>; every operation
  rounds its exact result to 53 significant bits, to nearest, ties to even, as IEEE 754
  binary64 does in the normal range.  The products of this script never leave that
  range: a non-zero integer times \<open>0.8\<close> or \<open>0.2\<close> is at least \<open>0.2\<close> in
  magnitude and below the largest double.
\<close>

type_synonym float = "int \<times> int"

function bit_length :: "int \<Rightarrow> nat" where
  \<comment> \<open>the number of bits of a positive integer\<close>
  "bit_length n = (if n \<le> 0 then 0 else Suc (bit_length (n div 2)))"
  by pat_completeness auto
termination
  by (relation "measure nat") auto

declare bit_length.simps [simp del]

definition rne_shift :: "int \<Rightarrow> nat \<Rightarrow> int" where
  \<comment> \<open>\<open>p / 2 ^ s\<close> rounded to the nearest integer, ties to even\<close>
  "rne_shift p s =
     (let q = p div 2 ^ s; r = p mod 2 ^ s
      in if 2 ^ s < 2 * r \<or> (2 * r = 2 ^ s \<and> odd q) then q + 1 else q)"

definition round53 :: "int \<Rightarrow> int \<Rightarrow> float" where
  \<comment> \<open>the double nearest to \<open>m * 2 ^ e\<close>\<close>
  "round53 m e =
     (let a = \<bar>m\<bar>; s = bit_length a - 53
      in (sgn m * rne_shift a s, e + int s))"

definition float_of_int :: "int \<Rightarrow> error + float" where
  \<comment> \<open>the implicit conversion of the integer operand; Python raises OverflowError
      for an integer too large for a double\<close>
  "float_of_int n =
     (case round53 n 0 of (m, e) \<Rightarrow>
        if 2 ^ 1024 \<le> \<bar>m\<bar> * 2 ^ nat e then Inl OverflowError else Inr (m, e))"

definition float_mul :: "float \<Rightarrow> float \<Rightarrow> float" where
  "float_mul x y = (case x of (m1, e1) \<Rightarrow> case y of (m2, e2) \<Rightarrow> round53 (m1 * m2) (e1 + e2))"

definition int_of_float :: "float \<Rightarrow> int" where
  \<comment> \<open>\<^verbatim>\<open>int(x)\<close> truncates towards zero\<close>
  "int_of_float x =
     (case x of (m, e) \<Rightarrow>
        if 0 \<le> e then m * 2 ^ nat e else sgn m * (\<bar>m\<bar> div 2 ^ nat (- e)))"

definition float_0_8 :: float where
  \<comment> \<open>the literal \<^verbatim>\<open>0.8\<close>, \<^verbatim>\<open>0x1.999999999999ap-1\<close>\<close>
  "float_0_8 = (7205759403792794, - 53)"

definition float_0_2 :: float where
  \<comment> \<open>the literal \<^verbatim>\<open>0.2\<close>, \<^verbatim>\<open>0x1.999999999999ap-3\<close>\<close>
  "float_0_2 = (7205759403792794, - 55)"

definition int_mul_float :: "int \<Rightarrow> float \<Rightarrow> error + int" where
  \<comment> \<open>\<^verbatim>\<open>int(n * c)\<close> for an integer \<open>n\<close> and a double \<open>c\<close>\<close>
  "int_mul_float n c =
     (case float_of_int n of Inl err \<Rightarrow> Inl err | Inr x \<Rightarrow> Inr (int_of_float (float_mul x c)))"

definition train_frac :: "int \<Rightarrow> error + int" where
  "train_frac tiles = int_mul_float tiles float_0_8"

definition val_frac :: "int \<Rightarrow> error + int" where
  "val_frac tiles = int_mul_float tiles float_0_2"

section \<open>The command line\<close>

text \<open>The namespace returned by \<^verbatim>\<open>get_arguments\<close>.\<close>

record args =
  GPUs :: int
  input_model :: "string option"
  epochs :: int
  batch_size :: int
  tiles :: "int option"
  file_input :: string
  output_directory :: string
  output_name :: string
  graphical_history :: bool

definition truthy :: "string option \<Rightarrow> bool" where
  \<comment> \<open>the test \<^verbatim>\<open>if(args.input_model):\<close>; \<^verbatim>\<open>None\<close> and the empty string are false\<close>
  "truthy s = (case s of None \<Rightarrow> False | Some p \<Rightarrow> p \<noteq> [])"

definition rstrip :: "char \<Rightarrow> string \<Rightarrow> string" where
  "rstrip c s = rev (dropWhile (\<lambda>x. x = c) (rev s))"

section \<open>The framework, as far as the script uses it\<close>

subsection \<open>Models, files and the trace of a run\<close>

record compile_cfg =
  optimizer :: string
  loss :: string
  metrics :: "string list"

text \<open>
  A model is known by the trainable flag of each element of \<^verbatim>\<open>model.layers\<close>, by
  its compile configuration, and by the number of training epochs its weights have been
  through, which names the variant of the weights.
\<close>

record model =
  layers :: "bool list"
  compiled :: "compile_cfg option"
  epochs_done :: nat

record figure =
  xaxis :: "int list"
  curves :: "(string \<times> real list) list"

datatype disk_file =
    Hdf5 "(string \<times> nat list) list"  \<comment> \<open>a data file: its named arrays, row by row\<close>
  | SavedModel model
  | Figure figure

record hdf5matrix =
  datapath :: string
  dataset :: string
  h5_data :: "nat list"  \<comment> \<open>the named array in the file\<close>
  h5_start :: int
  h5_end :: int

type_synonym onehot = "nat list list"

record checkpoint =
  \<comment> \<open>\<^verbatim>\<open>ModelCheckpoint(filepath, monitor, save_best_only=True, save_weights_only=False,
      mode='auto', period=1)\<close>; \<open>best\<close> is the callback's own state, \<open>None\<close> for the
      initial minus infinity of a maximised monitor\<close>
  filepath :: string
  monitor :: string
  best :: "real option"

record fit_call =
  fit_model :: model
  fit_x :: hdf5matrix
  fit_y :: onehot
  fit_validation_data :: "(hdf5matrix \<times> onehot) option"
  fit_epochs :: int
  fit_batch_size :: int
  fit_shuffle :: string
  fit_callbacks :: "checkpoint list"

datatype event =
    Read string        \<comment> \<open>a file opened for reading\<close>
  | Write string disk_file  \<comment> \<open>a file written, with its new content\<close>
  | Compile compile_cfg
  | Fit fit_call

record world =
  files :: "string \<rightharpoonup> disk_file"
  log :: "event list"

text \<open>
  What the script cannot decide: the shape of the networks the framework builds and the
  numbers that training produces.  \<open>measure k i\<close> is the value logged under the key
  \<open>k\<close> at the end of the epoch that takes the weights to variant \<open>i\<close>.
\<close>

record env =
  base_layers :: nat  \<comment> \<open>\<^verbatim>\<open>len(base_model.layers)\<close>\<close>
  wrap_layers :: "int \<Rightarrow> bool list \<Rightarrow> bool list"  \<comment> \<open>the layers of a multi-GPU wrapper\<close>
  measure :: "string \<Rightarrow> nat \<Rightarrow> real"

subsection \<open>Statements that may raise\<close>

type_synonym 'a io = "world \<Rightarrow> (error + 'a) \<times> world"

definition return_io :: "'a \<Rightarrow> 'a io" where
  "return_io x w = (Inr x, w)"

definition lift_io :: "error + 'a \<Rightarrow> 'a io" where
  "lift_io r w = (r, w)"

definition bind_io :: "'a io \<Rightarrow> ('a \<Rightarrow> 'b io) \<Rightarrow> 'b io" where
  "bind_io m f w = (case m w of (Inl err, w') \<Rightarrow> (Inl err, w') | (Inr x, w') \<Rightarrow> f x w')"

definition emit :: "event \<Rightarrow> world \<Rightarrow> world" where
  "emit ev w = w\<lparr>log := log w @ [ev]\<rparr>"

definition write_file :: "string \<Rightarrow> disk_file \<Rightarrow> world \<Rightarrow> world" where
  "write_file path content w = emit (Write path content) (w\<lparr>files := (files w)(path \<mapsto> content)\<rparr>)"

subsection \<open>\<^verbatim>\<open>HDF5Matrix\<close> and \<^verbatim>\<open>to_categorical\<close>\<close>

definition HDF5Matrix :: "string \<Rightarrow> string \<Rightarrow> int option \<Rightarrow> hdf5matrix io" where
  \<comment> \<open>\<^verbatim>\<open>HDF5Matrix(datapath, dataset, start=0, end=None)\<close>: opens the file, looks the
      array up, and keeps \<open>end\<close> as given, the number of rows when it is \<open>None\<close>\<close>
  "HDF5Matrix path name end_row w =
     (let w' = emit (Read path) w
      in case files w path of
           Some (Hdf5 arrays) \<Rightarrow>
             (case map_of arrays name of
                Some rows \<Rightarrow>
                  (Inr \<lparr>datapath = path, dataset = name, h5_data = rows, h5_start = 0,
                        h5_end = (case end_row of None \<Rightarrow> int (length rows) | Some e \<Rightarrow> e)\<rparr>, w')
              | None \<Rightarrow> (Inl KeyError, w'))
         | _ \<Rightarrow> (Inl OSError, w'))"

definition h5_len :: "hdf5matrix \<Rightarrow> int" where
  \<comment> \<open>\<^verbatim>\<open>len(matrix)\<close>\<close>
  "h5_len h = h5_end h - h5_start h"

definition h5_index :: "hdf5matrix \<Rightarrow> int list" where
  \<comment> \<open>the rows of the named array that the matrix stands for\<close>
  "h5_index h = [h5_start h .. h5_end h - 1]"

definition h5_rows :: "hdf5matrix \<Rightarrow> error + nat list" where
  \<comment> \<open>reading the whole matrix; rows outside the array cannot be read\<close>
  "h5_rows h =
     (if 0 \<le> h5_start h \<and> h5_start h \<le> h5_end h \<and> h5_end h \<le> int (length (h5_data h))
      then Inr (take (nat (h5_end h - h5_start h)) (drop (nat (h5_start h)) (h5_data h)))
      else Inl ValueError)"

definition one_hot :: "nat \<Rightarrow> nat \<Rightarrow> nat list" where
  "one_hot num_classes c = (replicate num_classes 0)[c := 1]"

definition to_categorical :: "hdf5matrix \<Rightarrow> error + onehot" where
  \<comment> \<open>\<^verbatim>\<open>to_categorical(y)\<close> with no \<^verbatim>\<open>num_classes\<close>: the width is the largest
      label plus one; the maximum of no labels is a ValueError\<close>
  "to_categorical y =
     (case h5_rows y of
        Inl err \<Rightarrow> Inl err
      | Inr ys \<Rightarrow>
          if ys = [] then Inl ValueError
          else let num_classes = Max (set ys) + 1 in Inr (map (one_hot num_classes) ys))"

subsection \<open>Building, loading, compiling and saving models\<close>

definition Model :: "model \<Rightarrow> model" where
  \<comment> \<open>\<^verbatim>\<open>Model(inputs=m.input, outputs=m.output)\<close>: a new model over the same
      layers, not compiled yet\<close>
  "Model m = m\<lparr>compiled := None\<rparr>"

definition multi_gpu_model :: "env \<Rightarrow> model \<Rightarrow> int \<Rightarrow> model" where
  "multi_gpu_model env m gpus = m\<lparr>layers := wrap_layers env gpus (layers m), compiled := None\<rparr>"

definition on_devices :: "env \<Rightarrow> int \<Rightarrow> model \<Rightarrow> model" where
  \<comment> \<open>the two branches on \<^verbatim>\<open>args.GPUs\<close> that follow every construction\<close>
  "on_devices env gpus src =
     (if gpus \<le> 1 then Model src else multi_gpu_model env (Model src) gpus)"

definition inception_with_head :: "env \<Rightarrow> model" where
  \<comment> \<open>the InceptionV3 base followed by pooling, dense, dropout and dense layers; new
      layers are trainable\<close>
  "inception_with_head env =
     \<lparr>layers = replicate (base_layers env + 4) True, compiled = None, epochs_done = 0\<rparr>"

definition load_model :: "string \<Rightarrow> model io" where
  "load_model path w =
     (let w' = emit (Read path) w
      in case files w path of
           Some (SavedModel m) \<Rightarrow> (Inr m, w')
         | _ \<Rightarrow> (Inl OSError, w'))"

definition save :: "model \<Rightarrow> string \<Rightarrow> unit io" where
  "save m path w = (Inr (), write_file path (SavedModel m) w)"

definition compile :: "model \<Rightarrow> compile_cfg \<Rightarrow> model io" where
  "compile m cfg w = (Inr (m\<lparr>compiled := Some cfg\<rparr>), emit (Compile cfg) w)"

definition set_upto :: "nat \<Rightarrow> bool \<Rightarrow> bool list \<Rightarrow> bool list" where
  \<comment> \<open>\<^verbatim>\<open>for layer in model.layers[:k]: layer.trainable = b\<close>\<close>
  "set_upto k b ls = map (\<lambda>_. b) (take k ls) @ drop k ls"

definition set_from :: "nat \<Rightarrow> bool \<Rightarrow> bool list \<Rightarrow> bool list" where
  \<comment> \<open>\<^verbatim>\<open>for layer in model.layers[k:]: layer.trainable = b\<close>\<close>
  "set_from k b ls = take k ls @ map (\<lambda>_. b) (drop k ls)"

subsection \<open>\<^verbatim>\<open>fit\<close>, its history and the checkpoint callback\<close>

type_synonym history = "string \<rightharpoonup> real list"

definition metric_key :: "string \<Rightarrow> string" where
  \<comment> \<open>the metric \<^verbatim>\<open>'accuracy'\<close> is logged as \<^verbatim>\<open>acc\<close>, the name the script reads\<close>
  "metric_key m = (if m = ''accuracy'' then ''acc'' else m)"

definition log_keys :: "compile_cfg \<Rightarrow> bool \<Rightarrow> string list" where
  "log_keys cfg validating =
     (let ks = ''loss'' # map metric_key (metrics cfg)
      in if validating then ks @ map (\<lambda>k. ''val_'' @ k) ks else ks)"

definition history_append :: "(string \<times> real) list \<Rightarrow> history \<Rightarrow> history" where
  \<comment> \<open>\<^verbatim>\<open>for k, v in logs.items(): history.setdefault(k, []).append(v)\<close>\<close>
  "history_append logs h =
     fold (\<lambda>(k, v) h. h(k \<mapsto> (case h k of None \<Rightarrow> [] | Some vs \<Rightarrow> vs) @ [v])) logs h"

definition maximised :: "string \<Rightarrow> bool" where
  \<comment> \<open>\<^verbatim>\<open>mode='auto'\<close>: a monitor with \<^verbatim>\<open>acc\<close> in its name is maximised\<close>
  "maximised name = (sublist ''acc'' name \<or> prefix ''fmeasure'' name)"

definition improves :: "checkpoint \<Rightarrow> real \<Rightarrow> bool" where
  "improves cb current =
     (case best cb of
        None \<Rightarrow> True
      | Some b \<Rightarrow> if maximised (monitor cb) then b < current else current < b)"

definition on_epoch_end :: "model \<Rightarrow> (string \<times> real) list \<Rightarrow> checkpoint \<Rightarrow> world \<Rightarrow> checkpoint \<times> world" where
  \<comment> \<open>\<^verbatim>\<open>save_best_only=True\<close>: the model is saved when the monitored value improves on
      the best one so far, and not at all when the value is not logged\<close>
  "on_epoch_end m logs cb w =
     (case map_of logs (monitor cb) of
        None \<Rightarrow> (cb, w)
      | Some current \<Rightarrow>
          if improves cb current
          then (cb\<lparr>best := Some current\<rparr>, write_file (filepath cb) (SavedModel m) w)
          else (cb, w))"

fun run_callbacks :: "model \<Rightarrow> (string \<times> real) list \<Rightarrow> checkpoint list \<Rightarrow> world \<Rightarrow> checkpoint list \<times> world" where
  "run_callbacks m logs [] w = ([], w)"
| "run_callbacks m logs (cb # cbs) w =
     (case on_epoch_end m logs cb w of (cb', w') \<Rightarrow>
      case run_callbacks m logs cbs w' of (cbs', w'') \<Rightarrow> (cb' # cbs', w''))"

record fit_state =
  st_model :: model
  st_history :: history
  st_callbacks :: "checkpoint list"
  st_world :: world

definition fit_epoch :: "env \<Rightarrow> string list \<Rightarrow> fit_state \<Rightarrow> fit_state" where
  \<comment> \<open>one epoch: train, log, run the callbacks\<close>
  "fit_epoch env keys st =
     (let m = (st_model st)\<lparr>epochs_done := Suc (epochs_done (st_model st))\<rparr>;
          logs = map (\<lambda>k. (k, measure env k (epochs_done m))) keys;
          after = run_callbacks m logs (st_callbacks st) (st_world st)
      in \<lparr>st_model = m, st_history = history_append logs (st_history st),
          st_callbacks = fst after, st_world = snd after\<rparr>)"

fun fit_loop :: "env \<Rightarrow> string list \<Rightarrow> nat \<Rightarrow> fit_state \<Rightarrow> fit_state" where
  \<comment> \<open>\<^verbatim>\<open>for epoch in range(epochs)\<close>\<close>
  "fit_loop env keys 0 st = st"
| "fit_loop env keys (Suc n) st = fit_loop env keys n (fit_epoch env keys st)"

definition fit :: "env \<Rightarrow> model \<Rightarrow> hdf5matrix \<Rightarrow> onehot \<Rightarrow> (hdf5matrix \<times> onehot) option \<Rightarrow> int \<Rightarrow> int \<Rightarrow> string \<Rightarrow> checkpoint list \<Rightarrow> (model \<times> history) io" where
  \<comment> \<open>\<^verbatim>\<open>model.fit(x, y, validation_data=..., epochs=..., batch_size=..., shuffle=...,
      callbacks=...)\<close>; a model that was never compiled cannot be fitted\<close>
  "fit env m x y validation_data n batch shuffle callbacks w =
     (case compiled m of
        None \<Rightarrow> (Inl RuntimeError, w)
      | Some cfg \<Rightarrow>
          (let call = \<lparr>fit_model = m, fit_x = x, fit_y = y,
                       fit_validation_data = validation_data, fit_epochs = n,
                       fit_batch_size = batch, fit_shuffle = shuffle,
                       fit_callbacks = callbacks\<rparr>;
               st = fit_loop env (log_keys cfg (validation_data \<noteq> None)) (nat n)
                      \<lparr>st_model = m, st_history = Map.empty, st_callbacks = callbacks,
                       st_world = emit (Fit call) w\<rparr>
           in (Inr (st_model st, st_history st), st_world st)))"

definition plot_history :: "string \<Rightarrow> history \<Rightarrow> unit io" where
  \<comment> \<open>lines 216 to 229; a key missing from the history is a KeyError\<close>
  "plot_history path history w =
     (case history ''loss'' of None \<Rightarrow> (Inl KeyError, w) | Some train_loss \<Rightarrow>
      case history ''val_loss'' of None \<Rightarrow> (Inl KeyError, w) | Some val_loss \<Rightarrow>
      case history ''acc'' of None \<Rightarrow> (Inl KeyError, w) | Some train_acc \<Rightarrow>
      case history ''val_acc'' of None \<Rightarrow> (Inl KeyError, w) | Some val_acc \<Rightarrow>
        (Inr (), write_file path
           (Figure \<lparr>xaxis = [1 .. int (length train_loss)],
                    curves = [(''training loss'', train_loss), (''validation loss'', val_loss),
                              (''training accuracy'', train_acc),
                              (''validation accuracy'', val_acc)]\<rparr>) w))"

section \<open>The script\<close>

definition load_data :: "args \<Rightarrow> (hdf5matrix \<times> onehot \<times> hdf5matrix \<times> onehot) io" where
  \<comment> \<open>lines 75 to 94\<close>
  "load_data a =
     bind_io (HDF5Matrix (file_input a) ''train_img'' None) (\<lambda>train_data.
     bind_io (HDF5Matrix (file_input a) ''train_labels'' None) (\<lambda>train_labels.
     bind_io (lift_io (to_categorical train_labels)) (\<lambda>train_labels.
     bind_io (HDF5Matrix (file_input a) ''val_img'' None) (\<lambda>val_data.
     bind_io (HDF5Matrix (file_input a) ''val_labels'' None) (\<lambda>val_labels.
     bind_io (lift_io (to_categorical val_labels)) (\<lambda>val_labels.
       case tiles a of
         None \<Rightarrow> return_io (train_data, train_labels, val_data, val_labels)
       | Some n \<Rightarrow>
           bind_io (lift_io (train_frac n)) (\<lambda>train_frac.
           bind_io (lift_io (val_frac n)) (\<lambda>val_frac.
           bind_io (HDF5Matrix (file_input a) ''train_img'' (Some train_frac)) (\<lambda>train_data.
           bind_io (HDF5Matrix (file_input a) ''train_labels'' (Some train_frac)) (\<lambda>train_labels.
           bind_io (lift_io (to_categorical train_labels)) (\<lambda>train_labels.
           bind_io (HDF5Matrix (file_input a) ''val_img'' (Some val_frac)) (\<lambda>val_data.
           bind_io (HDF5Matrix (file_input a) ''val_labels'' (Some val_frac)) (\<lambda>val_labels.
           bind_io (lift_io (to_categorical val_labels)) (\<lambda>val_labels.
             return_io (train_data, train_labels, val_data, val_labels)))))))))))))))"

definition with_accuracy :: compile_cfg where
  "with_accuracy = \<lparr>optimizer = ''sgd'', loss = ''categorical_crossentropy'', metrics = [''accuracy'']\<rparr>"

definition loss_only :: compile_cfg where
  "loss_only = \<lparr>optimizer = ''sgd'', loss = ''categorical_crossentropy'', metrics = []\<rparr>"

definition resume_model :: "env \<Rightarrow> args \<Rightarrow> model io" where
  \<comment> \<open>lines 100 to 106\<close>
  "resume_model env a =
     bind_io (load_model (the (input_model a))) (\<lambda>input_model.
       return_io (on_devices env (GPUs a) input_model))"

definition frozen_model :: "env \<Rightarrow> args \<Rightarrow> model" where
  \<comment> \<open>lines 110 to 140\<close>
  "frozen_model env a =
     (let built = on_devices env (GPUs a) (inception_with_head env)
      in built\<lparr>layers := set_from 280 True (set_upto 280 False (layers built))\<rparr>)"

definition fresh_model :: "env \<Rightarrow> args \<Rightarrow> hdf5matrix \<Rightarrow> onehot \<Rightarrow> model io" where
  \<comment> \<open>lines 110 to 165\<close>
  "fresh_model env a train_data train_labels =
     bind_io (compile (frozen_model env a) with_accuracy) (\<lambda>model.
     bind_io (fit env model train_data train_labels None 1 (batch_size a) ''batch'' []) (\<lambda>(model, _).
     bind_io (compile (model\<lparr>layers := set_upto 280 True (layers model)\<rparr>) loss_only) (\<lambda>model.
     bind_io (save model ''intermediate_model.hdf5'') (\<lambda>_.
       return_io model))))"

definition build_model :: "env \<Rightarrow> args \<Rightarrow> hdf5matrix \<Rightarrow> onehot \<Rightarrow> (model \<times> bool) io" where
  \<comment> \<open>lines 96 to 165; the second component is \<^verbatim>\<open>new_model\<close>\<close>
  "build_model env a train_data train_labels =
     (if truthy (input_model a)
      then bind_io (resume_model env a) (\<lambda>model. return_io (model, False))
      else bind_io (fresh_model env a train_data train_labels) (\<lambda>model. return_io (model, True)))"

definition second_phase :: "env \<Rightarrow> args \<Rightarrow> model \<Rightarrow> bool \<Rightarrow> (model \<times> int) io" where
  \<comment> \<open>lines 167 to 180; the second component is \<^verbatim>\<open>epochs\<close>\<close>
  "second_phase env a model new_model =
     (if new_model
      then bind_io (load_model ''intermediate_model.hdf5'') (\<lambda>intermediate_model.
             return_io (on_devices env (GPUs a) intermediate_model, max 1 (epochs a - 1)))
      else return_io (model, epochs a))"

definition checkpoint_path :: "args \<Rightarrow> string" where
  "checkpoint_path a = output_directory a @ ''/'' @ output_name a @ ''_model.h5''"

definition history_path :: "args \<Rightarrow> string" where
  "history_path a = output_directory a @ ''/'' @ output_name a @ ''_training_history.png''"

definition train :: "env \<Rightarrow> args \<Rightarrow> model \<Rightarrow> int \<Rightarrow> hdf5matrix \<Rightarrow> onehot \<Rightarrow> hdf5matrix \<Rightarrow> onehot \<Rightarrow> unit io" where
  \<comment> \<open>lines 182 to 229\<close>
  "train env a model n train_data train_labels val_data val_labels =
     bind_io (compile model with_accuracy) (\<lambda>model.
     bind_io (fit env model train_data train_labels (Some (val_data, val_labels)) n
                (batch_size a) ''batch''
                [\<lparr>filepath = checkpoint_path a, monitor = ''val_acc'', best = None\<rparr>])
       (\<lambda>(model, trained_model).
     if graphical_history a then plot_history (history_path a) trained_model
     else return_io ()))"

definition normalise :: "args \<Rightarrow> args" where
  \<comment> \<open>line 73\<close>
  "normalise a = a\<lparr>output_directory := rstrip CHR ''/'' (output_directory a)\<rparr>"

definition main :: "env \<Rightarrow> args \<Rightarrow> unit io" where
  \<comment> \<open>lines 71 to 229\<close>
  "main env parsed =
     (let a = normalise parsed
      in bind_io (load_data a) (\<lambda>(train_data, train_labels, val_data, val_labels).
         bind_io (build_model env a train_data train_labels) (\<lambda>(model, new_model).
         bind_io (second_phase env a model new_model) (\<lambda>(model, n).
           train env a model n train_data train_labels val_data val_labels))))"

definition run :: "env \<Rightarrow> args \<Rightarrow> (string \<rightharpoonup> disk_file) \<Rightarrow> (error + unit) \<times> world" where
  \<comment> \<open>one run of the script on a file system, from an empty trace\<close>
  "run env a fs = main env a \<lparr>files = fs, log = []\<rparr>"

section \<open>Two concrete runs\<close>

text \<open>
  A data file with twenty training rows and ten validation rows, a saved model
  \<^verbatim>\<open>prior.h5\<close>, and the two command lines of the end-to-end scenarios: a fresh run of
  three epochs on twenty tiles, and a run of five epochs resumed from \<^verbatim>\<open>prior.h5\<close>.
\<close>

definition example_files :: "string \<rightharpoonup> disk_file" where
  "example_files =
     [''tiles.h5'' \<mapsto> Hdf5 [(''train_img'', [100 ..< 120]),
                               (''train_labels'', [0, 1, 1, 0, 1, 0, 0, 1, 1, 0,
                                                    0, 1, 0, 1, 1, 0, 1, 0, 0, 1]),
                               (''val_img'', [200 ..< 210]),
                               (''val_labels'', [0, 1, 0, 1, 1, 0, 1, 0, 0, 1])],
      ''prior.h5'' \<mapsto> SavedModel \<lparr>layers = replicate 315 True, compiled = None,
                                      epochs_done = 7\<rparr>]"

definition example_env :: env where
  "example_env =
     \<lparr>base_layers = 311, wrap_layers = (\<lambda>gpus ls. replicate (nat gpus + 3) True),
      measure = (\<lambda>k i. if k = ''val_acc'' then (if i = 2 then 9 / 10 else 1 / 2) else 1 / real i)\<rparr>"

definition fresh_args :: args where
  "fresh_args =
     \<lparr>GPUs = 1, input_model = None, epochs = 3, batch_size = 8, tiles = Some 20,
      file_input = ''tiles.h5'', output_directory = ''out/'', output_name = ''run'',
      graphical_history = True\<rparr>"

definition resume_args :: args where
  "resume_args =
     \<lparr>GPUs = 1, input_model = Some ''prior.h5'', epochs = 5, batch_size = 8, tiles = None,
      file_input = ''tiles.h5'', output_directory = ''.'', output_name = [],
      graphical_history = True\<rparr>"

text \<open>
  A third run resumes from the intermediate checkpoint that a fresh run has left in the
  working directory, and a fourth is the fresh run on five tiles only.
\<close>

definition restart_args :: args where
  "restart_args = resume_args\<lparr>input_model := Some ''intermediate_model.hdf5''\<rparr>"

definition restart_files :: "string \<rightharpoonup> disk_file" where
  "restart_files =
     example_files(''intermediate_model.hdf5'' \<mapsto>
       SavedModel \<lparr>layers = replicate 315 True, compiled = Some loss_only, epochs_done = 1\<rparr>)"

definition five_tiles_args :: args where
  "five_tiles_args = fresh_args\<lparr>tiles := Some 5\<rparr>"

definition start :: "(string \<rightharpoonup> disk_file) \<Rightarrow> world" where
  "start fs = \<lparr>files = fs, log = []\<rparr>"

section \<open>Reading the trace of a run\<close>

text \<open>The calls of \<^verbatim>\<open>fit\<close>, the models written to a path and the figures written, in order.\<close>

fun fit_calls :: "event list \<Rightarrow> fit_call list" where
  "fit_calls [] = []"
| "fit_calls (Fit f # evs) = f # fit_calls evs"
| "fit_calls (_ # evs) = fit_calls evs"

fun saved_to :: "string \<Rightarrow> event list \<Rightarrow> model list" where
  "saved_to p [] = []"
| "saved_to p (Write q (SavedModel m) # evs) = (if q = p then m # saved_to p evs else saved_to p evs)"
| "saved_to p (_ # evs) = saved_to p evs"

fun figures :: "event list \<Rightarrow> (string \<times> figure) list" where
  "figures [] = []"
| "figures (Write p (Figure g) # evs) = (p, g) # figures evs"
| "figures (_ # evs) = figures evs"

definition reads_only :: "string \<Rightarrow> world \<Rightarrow> world \<Rightarrow> bool" where
  \<comment> \<open>the second world is the first one after some reads of the file\<close>
  "reads_only p w w' = (\<exists>k. w' = w\<lparr>log := log w @ replicate k (Read p)\<rparr>)"

section \<open>The stages of a run, by name\<close>

text \<open>
  The values the script holds at its calls of \<^verbatim>\<open>fit\<close> and \<^verbatim>\<open>save\<close>, written out
  once so that the lemmas on a whole run can name them: the model and the call of
  line 148, the model saved at line 165, the call of line 203, and what that call leaves
  behind.
\<close>

definition head_model :: "env \<Rightarrow> args \<Rightarrow> model" where
  "head_model env a = (frozen_model env a)\<lparr>compiled := Some with_accuracy\<rparr>"

definition head_call :: "env \<Rightarrow> args \<Rightarrow> hdf5matrix \<Rightarrow> onehot \<Rightarrow> fit_call" where
  "head_call env a train_data train_labels =
     \<lparr>fit_model = head_model env a, fit_x = train_data, fit_y = train_labels,
      fit_validation_data = None, fit_epochs = 1, fit_batch_size = batch_size a,
      fit_shuffle = ''batch'', fit_callbacks = []\<rparr>"

definition intermediate :: "env \<Rightarrow> args \<Rightarrow> model" where
  "intermediate env a =
     (head_model env a)\<lparr>epochs_done := Suc (epochs_done (head_model env a)),
                         layers := set_upto 280 True (layers (head_model env a)),
                         compiled := Some loss_only\<rparr>"

definition tune_call :: "args \<Rightarrow> model \<Rightarrow> int \<Rightarrow> hdf5matrix \<Rightarrow> onehot \<Rightarrow> hdf5matrix \<Rightarrow> onehot \<Rightarrow> fit_call" where
  "tune_call a model n train_data train_labels val_data val_labels =
     \<lparr>fit_model = model\<lparr>compiled := Some with_accuracy\<rparr>, fit_x = train_data,
      fit_y = train_labels, fit_validation_data = Some (val_data, val_labels),
      fit_epochs = n, fit_batch_size = batch_size a, fit_shuffle = ''batch'',
      fit_callbacks = [\<lparr>filepath = checkpoint_path a, monitor = ''val_acc'', best = None\<rparr>]\<rparr>"

definition tune_keys :: "string list" where
  "tune_keys = [''loss'', ''acc'', ''val_loss'', ''val_acc'']"

primrec improvements :: "(nat \<Rightarrow> real) \<Rightarrow> nat \<Rightarrow> nat \<Rightarrow> nat list" where
  \<comment> \<open>among the variants \<open>e + 1\<close> to \<open>e + n\<close>, those whose value is above the values of
      all variants before them\<close>
  "improvements v e 0 = []"
| "improvements v e (Suc n) =
     improvements v e n @ (if \<forall>i \<in> {e <.. e + n}. v i < v (e + Suc n) then [e + Suc n] else [])"

definition checkpoints :: "env \<Rightarrow> model \<Rightarrow> int \<Rightarrow> disk_file list" where
  "checkpoints env model n =
     map (\<lambda>j. SavedModel (model\<lparr>compiled := Some with_accuracy, epochs_done := j\<rparr>))
       (improvements (measure env ''val_acc'') (epochs_done model) (nat n))"

definition checkpoint_models :: "env \<Rightarrow> model \<Rightarrow> int \<Rightarrow> model list" where
  "checkpoint_models env model n =
     map (\<lambda>j. model\<lparr>compiled := Some with_accuracy, epochs_done := j\<rparr>)
       (improvements (measure env ''val_acc'') (epochs_done model) (nat n))"

definition series :: "env \<Rightarrow> model \<Rightarrow> int \<Rightarrow> string \<Rightarrow> real list" where
  "series env model n k =
     map (measure env k) [Suc (epochs_done model) ..< Suc (epochs_done model + nat n)]"

definition history_figure :: "env \<Rightarrow> model \<Rightarrow> int \<Rightarrow> figure" where
  "history_figure env model n =
     \<lparr>xaxis = [1 .. int (length (series env model n ''loss''))],
      curves = [(''training loss'', series env model n ''loss''),
                (''validation loss'', series env model n ''val_loss''),
                (''training accuracy'', series env model n ''acc''),
                (''validation accuracy'', series env model n ''val_acc'')]\<rparr>"

definition trained :: "env \<Rightarrow> args \<Rightarrow> model \<Rightarrow> int \<Rightarrow> hdf5matrix \<Rightarrow> onehot \<Rightarrow> hdf5matrix \<Rightarrow> onehot \<Rightarrow> world \<Rightarrow> world" where
  "trained env a model n train_data train_labels val_data val_labels w =
     fold (\<lambda>c. write_file (checkpoint_path a) c) (checkpoints env model n)
       (emit (Fit (tune_call a model n train_data train_labels val_data val_labels))
          (emit (Compile with_accuracy) w))"

section \<open>Rounding: the subset sizes\<close>

lemma bit_length_le: "n < 2 ^ k \<Longrightarrow> bit_length n \<le> k"
proof (induction k arbitrary: n)
  case 0
  then show ?case by (simp add: bit_length.simps)
next
  case (Suc k)
  have "n div 2 < 2 ^ k" using Suc.prems by simp
  then have "bit_length (n div 2) \<le> k" by (rule Suc.IH)
  then show ?case by (subst bit_length.simps) simp
qed

lemma rne_shift_0: "rne_shift p 0 = p"
  by (simp add: rne_shift_def)

lemma rne_shift_lower: "p div 2 ^ s \<le> rne_shift p s"
  by (simp add: rne_shift_def Let_def)

lemma rne_shift_upper: "2 * (2 ^ s * rne_shift p s) \<le> 2 * p + 2 ^ s"
proof -
  define q where "q = p div 2 ^ s"
  define r where "r = p mod 2 ^ s"
  define b where "b = (2::int) ^ s"
  have eq: "p = b * q + r" by (simp add: q_def r_def b_def)
  have nonneg: "0 \<le> r" by (simp add: r_def)
  have b: "0 < b" by (simp add: b_def)
  show ?thesis
  proof (cases "b < 2 * r \<or> (2 * r = b \<and> odd q)")
    case True
    then have "rne_shift p s = q + 1"
      by (simp add: rne_shift_def Let_def q_def r_def b_def)
    moreover from True have "b \<le> 2 * r" by auto
    ultimately show ?thesis using eq unfolding b_def [symmetric]
      by (simp add: algebra_simps)
  next
    case False
    then have "rne_shift p s = q"
      by (simp add: rne_shift_def Let_def q_def r_def b_def)
    then show ?thesis using eq nonneg b unfolding b_def [symmetric]
      by (simp add: algebra_simps)
  qed
qed

text \<open>
  The product of a subset size below \<open>3 * 2 ^ 49\<close> with the mantissa of \<open>0.8\<close>
  has at most 104 bits, so at most 51 of them are rounded away; a bound \<open>M\<close> with
  half a unit of that rounding to spare on both sides is the truncated product.
\<close>

lemma round_product:
  assumes n: "0 < n" "n < 3 * 2 ^ 49"
    and M: "M * 2 ^ d \<le> n * 7205759403792794"
           "2 * (n * 7205759403792794) + 2 ^ 51 < 2 * ((M + 1) * 2 ^ d)"
    and d: "53 \<le> d"
  shows "int_mul_float n (7205759403792794, - int d) = Inr M"
proof -
  define P where "P = n * 7205759403792794"
  define s where "s = bit_length P - 53"
  define R where "R = rne_shift P s"
  have Ppos: "0 < P" using n by (simp add: P_def)
  have "n < 2 ^ 53" using n by simp
  then have "bit_length n \<le> 53" by (rule bit_length_le)
  then have conv: "round53 n 0 = (n, 0)"
    using n by (simp add: round53_def rne_shift_0)
  have fl: "float_of_int n = Inr (n, 0)"
    using n by (simp add: float_of_int_def conv)
  have "P < 2 ^ 104" using n by (simp add: P_def)
  then have "bit_length P \<le> 104" by (rule bit_length_le)
  then have s: "s \<le> 51" by (simp add: s_def)
  then have pw: "(2::int) ^ s \<le> 2 ^ 51" by (rule power_increasing) simp
  have sd: "s < d" using s d by simp
  have mul: "float_mul (n, 0) (7205759403792794, - int d) = (R, int s - int d)"
    using Ppos by (simp add: float_mul_def round53_def R_def s_def P_def Let_def)
  have split: "(2::int) ^ d = 2 ^ (d - s) * 2 ^ s"
    using sd by (simp add: power_add [symmetric])
  have "M * 2 ^ (d - s) = (M * 2 ^ (d - s) * 2 ^ s) div 2 ^ s" by simp
  also have "\<dots> \<le> P div 2 ^ s"
    using M(1) by (intro zdiv_mono1) (simp_all add: P_def split mult.assoc)
  also have "\<dots> \<le> R" unfolding R_def by (rule rne_shift_lower)
  finally have lower: "M * 2 ^ (d - s) \<le> R" .
  have "2 * (2 ^ s * R) \<le> 2 * P + 2 ^ s" unfolding R_def by (rule rne_shift_upper)
  also have "\<dots> < 2 * ((M + 1) * 2 ^ d)" using M(2) pw by (simp add: P_def)
  finally have "2 ^ s * R < 2 ^ s * ((M + 1) * 2 ^ (d - s))"
    by (simp add: split mult_ac)
  then have upper: "R < (M + 1) * 2 ^ (d - s)" by simp
  have Rnn: "0 \<le> R" using Ppos rne_shift_lower [of P s] unfolding R_def
    by (meson order_trans pos_imp_zdiv_nonneg_iff zero_less_power zero_less_numeral less_imp_le)
  have "R div 2 ^ (d - s) = M"
    using lower upper
    by (intro int_div_pos_eq [where r = "R - M * 2 ^ (d - s)"]) (simp_all add: algebra_simps)
  moreover have "nat (int d - int s) = d - s" using sd by simp
  ultimately have "int_of_float (R, int s - int d) = M"
    using sd Rnn by (cases "R = 0") (auto simp add: int_of_float_def sgn_if)
  then show ?thesis by (simp add: int_mul_float_def fl mul)
qed

lemma train_frac_floor:
  assumes "0 < n" "n < 3 * 2 ^ 49"
  shows "train_frac n = Inr ((4 * n) div 5)"
  unfolding train_frac_def float_0_8_def
  using assms by (intro round_product [where d = 53, simplified]) simp_all

lemma val_frac_floor:
  assumes "0 < n" "n < 3 * 2 ^ 49"
  shows "val_frac n = Inr (n div 5)"
  unfolding val_frac_def float_0_2_def
  using assms by (intro round_product [where d = 55, simplified]) simp_all

lemma floor_0_8: "\<lfloor>0.8 * real_of_int n\<rfloor> = (4 * n) div 5"
proof -
  have "0.8 * real_of_int n = real_of_int (4 * n) / real_of_int 5" by simp
  then show ?thesis by (simp only: floor_divide_of_int_eq)
qed

lemma floor_0_2: "\<lfloor>0.2 * real_of_int n\<rfloor> = n div 5"
proof -
  have "0.2 * real_of_int n = real_of_int n / real_of_int 5" by simp
  then show ?thesis by (simp only: floor_divide_of_int_eq)
qed

section \<open>Statements in sequence\<close>

lemma fst_bind_io_InrE:
  assumes "fst (bind_io m f w) = Inr y"
  obtains x where "fst (m w) = Inr x" and "fst (f x (snd (m w))) = Inr y"
  using assms by (auto simp: bind_io_def split: prod.splits sum.splits)

lemma fst_lift_io [simp]: "fst (lift_io r w) = r"
  by (simp add: lift_io_def)

lemma snd_lift_io [simp]: "snd (lift_io r w) = w"
  by (simp add: lift_io_def)

lemma fst_return_io [simp]: "fst (return_io x w) = Inr x"
  by (simp add: return_io_def)

lemma snd_return_io [simp]: "snd (return_io x w) = w"
  by (simp add: return_io_def)

lemma files_emit [simp]: "files (emit ev w) = files w"
  by (simp add: emit_def)

lemma log_emit [simp]: "log (emit ev w) = log w @ [ev]"
  by (simp add: emit_def)

section \<open>Loading the data\<close>

lemma HDF5Matrix_Inr:
  assumes "fst (HDF5Matrix p name e w) = Inr h"
  shows "datapath h = p \<and> dataset h = name \<and> h5_start h = 0
     \<and> h5_end h = (case e of None \<Rightarrow> int (length (h5_data h)) | Some k \<Rightarrow> k)
     \<and> (\<exists>arrays. files w p = Some (Hdf5 arrays) \<and> map_of arrays name = Some (h5_data h))"
  using assms
  by (auto simp: HDF5Matrix_def Let_def split: option.splits disk_file.splits)

lemma snd_HDF5Matrix [simp]: "snd (HDF5Matrix p name e w) = emit (Read p) w"
  by (auto simp: HDF5Matrix_def Let_def split: option.splits disk_file.splits)

lemma to_categorical_Inr:
  assumes "to_categorical y = Inr t" and "h5_start y = 0"
  shows "0 \<le> h5_end y \<and> h5_end y \<le> int (length (h5_data y)) \<and> h5_end y \<noteq> 0
     \<and> t = map (one_hot (Max (set (take (nat (h5_end y)) (h5_data y))) + 1))
              (take (nat (h5_end y)) (h5_data y))"
  using assms
  by (auto simp: to_categorical_def h5_rows_def Let_def split: sum.splits if_splits)

lemma load_data_subset:
  assumes t: "tiles a = Some n"
    and ok: "fst (load_data a w) = Inr (tdata, tlab, vdata, vlab)"
  shows "\<exists>tf vf arrays.
      train_frac n = Inr tf \<and> val_frac n = Inr vf
    \<and> files w (file_input a) = Some (Hdf5 arrays)
    \<and> datapath tdata = file_input a \<and> dataset tdata = ''train_img'' \<and> h5_start tdata = 0 \<and> h5_end tdata = tf
    \<and> map_of arrays ''train_img'' = Some (h5_data tdata)
    \<and> datapath vdata = file_input a \<and> dataset vdata = ''val_img'' \<and> h5_start vdata = 0 \<and> h5_end vdata = vf
    \<and> map_of arrays ''val_img'' = Some (h5_data vdata)
    \<and> (\<exists>ys. map_of arrays ''train_labels'' = Some ys \<and> 0 < tf \<and> tf \<le> int (length ys)
          \<and> tlab = map (one_hot (Max (set (take (nat tf) ys)) + 1)) (take (nat tf) ys))
    \<and> (\<exists>zs. map_of arrays ''val_labels'' = Some zs \<and> 0 < vf \<and> vf \<le> int (length zs)
          \<and> vlab = map (one_hot (Max (set (take (nat vf) zs)) + 1)) (take (nat vf) zs))"
proof -
  from ok obtain a1 a2 a3 a4 a5 a6 tf vf tdata' tlabm tlab' vdata' vlabm vlab' where
        tf: "train_frac n = Inr tf" and vf: "val_frac n = Inr vf"
    and first: "fst (HDF5Matrix (file_input a) ''train_img'' None w) = Inr a1"
    and tdata: "fst (HDF5Matrix (file_input a) ''train_img'' (Some tf)
                (emit (Read (file_input a)) (emit (Read (file_input a)) (emit (Read (file_input a)) (emit (Read (file_input a)) w))))) = Inr tdata'"
    and tlabm: "fst (HDF5Matrix (file_input a) ''train_labels'' (Some tf)
                (emit (Read (file_input a)) (emit (Read (file_input a)) (emit (Read (file_input a)) (emit (Read (file_input a)) (emit (Read (file_input a)) w)))))) = Inr tlabm"
    and tlab: "to_categorical tlabm = Inr tlab'"
    and vdata: "fst (HDF5Matrix (file_input a) ''val_img'' (Some vf)
                (emit (Read (file_input a)) (emit (Read (file_input a)) (emit (Read (file_input a)) (emit (Read (file_input a)) (emit (Read (file_input a)) (emit (Read (file_input a)) w))))))) = Inr vdata'"
    and vlabm: "fst (HDF5Matrix (file_input a) ''val_labels'' (Some vf)
                (emit (Read (file_input a)) (emit (Read (file_input a)) (emit (Read (file_input a)) (emit (Read (file_input a)) (emit (Read (file_input a)) (emit (Read (file_input a)) (emit (Read (file_input a)) w)))))))) = Inr vlabm"
    and vlab: "to_categorical vlabm = Inr vlab'"
    and res: "(tdata, tlab, vdata, vlab) = (tdata', tlab', vdata', vlab')"
    unfolding load_data_def t option.case
    by (elim fst_bind_io_InrE) (simp add: )
  note A = HDF5Matrix_Inr [OF tdata] HDF5Matrix_Inr [OF tlabm] HDF5Matrix_Inr [OF vdata] HDF5Matrix_Inr [OF vlabm]
  from A(2) have s1: "h5_start tlabm = 0" by simp
  from A(4) have s2: "h5_start vlabm = 0" by simp
  note B = to_categorical_Inr [OF tlab s1] to_categorical_Inr [OF vlab s2]
  from A obtain arrays where arrays: "files w (file_input a) = Some (Hdf5 arrays)" by auto
  show ?thesis
    using tf vf res A B arrays by (auto simp: )
qed

text \<open>
  Claim C2, as amended.  For a subset size \<open>n\<close> with \<open>1 \<le> n < 3 * 2 ^ 49\<close>, the
  script computes \<open>floor (0.8 * n)\<close> and \<open>floor (0.2 * n)\<close>, and after a successful
  load the train and validation matrices stand for the rows \<open>0\<close> up to these lengths
  minus one of \<^verbatim>\<open>train_img\<close>, \<^verbatim>\<open>train_labels\<close>, \<^verbatim>\<open>val_img\<close> and \<^verbatim>\<open>val_labels\<close>.
\<close>

theorem subset_slices:
  assumes "tiles a = Some n" and "1 \<le> n" and "n < 3 * 2 ^ 49"
    and "fst (load_data a w) = Inr (train_data, train_labels, val_data, val_labels)"
  shows "train_frac n = Inr \<lfloor>0.8 * real_of_int n\<rfloor>
       \<and> val_frac n = Inr \<lfloor>0.2 * real_of_int n\<rfloor>
       \<and> dataset train_data = ''train_img'' \<and> dataset val_data = ''val_img''
       \<and> h5_len train_data = \<lfloor>0.8 * real_of_int n\<rfloor>
       \<and> h5_len val_data = \<lfloor>0.2 * real_of_int n\<rfloor>
       \<and> h5_index train_data = [0 .. \<lfloor>0.8 * real_of_int n\<rfloor> - 1]
       \<and> h5_index val_data = [0 .. \<lfloor>0.2 * real_of_int n\<rfloor> - 1]
       \<and> int (length train_labels) = \<lfloor>0.8 * real_of_int n\<rfloor>
       \<and> int (length val_labels) = \<lfloor>0.2 * real_of_int n\<rfloor>
       \<and> (\<exists>arrays ys zs. files w (file_input a) = Some (Hdf5 arrays)
            \<and> map_of arrays ''train_img'' = Some (h5_data train_data)
            \<and> map_of arrays ''val_img'' = Some (h5_data val_data)
            \<and> map_of arrays ''train_labels'' = Some ys
            \<and> map_of arrays ''val_labels'' = Some zs
            \<and> train_labels = map (one_hot (Max (set (take (nat \<lfloor>0.8 * real_of_int n\<rfloor>) ys)) + 1))
                                 (take (nat \<lfloor>0.8 * real_of_int n\<rfloor>) ys)
            \<and> val_labels = map (one_hot (Max (set (take (nat \<lfloor>0.2 * real_of_int n\<rfloor>) zs)) + 1))
                               (take (nat \<lfloor>0.2 * real_of_int n\<rfloor>) zs))"
proof -
  have tf: "train_frac n = Inr \<lfloor>0.8 * real_of_int n\<rfloor>"
    using assms(2,3) by (simp only: floor_0_8 train_frac_floor)
  have vf: "val_frac n = Inr \<lfloor>0.2 * real_of_int n\<rfloor>"
    using assms(2,3) by (simp only: floor_0_2 val_frac_floor)
  from load_data_subset [OF assms(1,4)] tf vf show ?thesis
    by (auto simp: h5_len_def h5_index_def)
qed

theorem subset_slices_witness:
  "tiles fresh_args = Some 20
   \<and> \<not> isl (fst (load_data fresh_args (start example_files)))
   \<and> (case projr (fst (load_data fresh_args (start example_files))) of
        (train_data, train_labels, val_data, val_labels) \<Rightarrow>
          h5_len train_data = 16 \<and> length train_labels = 16
        \<and> h5_len val_data = 4 \<and> length val_labels = 4
        \<and> h5_index train_data = [0 .. 15] \<and> h5_index val_data = [0 .. 3])"
proof -
  define X where "X = fst (load_data fresh_args (start example_files))"
  have ok: "\<not> isl X" unfolding X_def by code_simp
  obtain train_data train_labels val_data val_labels
    where p: "projr X = (train_data, train_labels, val_data, val_labels)"
    by (cases "projr X")
  with ok have X: "X = Inr (train_data, train_labels, val_data, val_labels)"
    by (cases X) auto
  have t: "tiles fresh_args = Some 20" by (simp add: fresh_args_def)
  have f8: "\<lfloor>0.8 * real_of_int 20\<rfloor> = 16" and f2: "\<lfloor>0.2 * real_of_int 20\<rfloor> = 4"
    by (simp_all add: floor_0_8 floor_0_2)
  from subset_slices [OF t _ _ X [unfolded X_def]] ok p t show ?thesis
    unfolding X_def [symmetric] f8 f2 by simp
qed

text \<open>
  At \<open>n = 3 * 2 ^ 49\<close> the double product rounds up across an integer: the train
  length is one more than \<open>floor (0.8 * n)\<close>.
\<close>

theorem subset_slices_counterexample:
  "train_frac 1688849860263936 = Inr 1351079888211149
   \<and> \<lfloor>0.8 * real_of_int 1688849860263936\<rfloor> = 1351079888211148"
proof
  show "train_frac 1688849860263936 = Inr 1351079888211149" by code_simp
  show "\<lfloor>0.8 * real_of_int 1688849860263936\<rfloor> = 1351079888211148"
    by (simp add: floor_0_8)
qed

section \<open>The training loop\<close>

lemma fit_loop_snoc:
  "fit_loop env keys (Suc n) st = fit_epoch env keys (fit_loop env keys n st)"
  by (induction n arbitrary: st) simp_all

lemma st_model_fit_loop:
  "st_model (fit_loop env keys n st)
     = (st_model st)\<lparr>epochs_done := epochs_done (st_model st) + n\<rparr>"
proof (induction n)
  case 0
  show ?case by simp
next
  case (Suc n)
  show ?case unfolding fit_loop_snoc by (simp add: fit_epoch_def Let_def Suc)
qed

lemma fit_loop_no_callbacks:
  "st_callbacks st = [] \<Longrightarrow> st_callbacks (fit_loop env keys n st) = []
      \<and> st_world (fit_loop env keys n st) = st_world st"
proof (induction n)
  case 0
  then show ?case by simp
next
  case (Suc n)
  then show ?case unfolding fit_loop_snoc by (simp add: fit_epoch_def Let_def)
qed

lemma history_append_distinct:
  "distinct (map fst logs) \<Longrightarrow>
   history_append logs h k =
     (case map_of logs k of
        None \<Rightarrow> h k
      | Some v \<Rightarrow> Some ((case h k of None \<Rightarrow> [] | Some vs \<Rightarrow> vs) @ [v]))"
proof (induction logs arbitrary: h)
  case Nil
  show ?case by (simp add: history_append_def)
next
  case (Cons x logs)
  obtain k' v' where x: "x = (k', v')" by (cases x)
  define h' where "h' = h(k' \<mapsto> (case h k' of None \<Rightarrow> [] | Some vs \<Rightarrow> vs) @ [v'])"
  from Cons.prems have d: "distinct (map fst logs)" and nin: "k' \<notin> fst ` set logs"
    by (auto simp: x)
  from nin have none: "map_of logs k' = None" by (simp add: map_of_eq_None_iff)
  have "history_append (x # logs) h k = history_append logs h' k"
    by (simp add: history_append_def x h'_def)
  also have "\<dots> = (case map_of logs k of
        None \<Rightarrow> h' k
      | Some v \<Rightarrow> Some ((case h' k of None \<Rightarrow> [] | Some vs \<Rightarrow> vs) @ [v]))"
    by (rule Cons.IH [OF d])
  also have "\<dots> = (case map_of (x # logs) k of
        None \<Rightarrow> h k
      | Some v \<Rightarrow> Some ((case h k of None \<Rightarrow> [] | Some vs \<Rightarrow> vs) @ [v]))"
    using none by (cases "k = k'") (simp_all add: x h'_def cong: option.case_cong)
  finally show ?case .
qed

lemma st_history_fit_loop:
  assumes "distinct keys"
  shows "st_history (fit_loop env keys n st) k =
     (if k \<in> set keys \<and> 0 < n
      then Some ((case st_history st k of None \<Rightarrow> [] | Some vs \<Rightarrow> vs)
                 @ map (measure env k) [Suc (epochs_done (st_model st)) ..< Suc (epochs_done (st_model st) + n)])
      else st_history st k)"
proof (induction n)
  case 0
  show ?case by simp
next
  case (Suc n)
  have d: "distinct (map fst (map (\<lambda>k. (k, measure env k (Suc (epochs_done (st_model st) + n)))) keys))"
    using assms by (simp add: comp_def)
  have look: "map_of (map (\<lambda>k. (k, measure env k j)) keys) k
      = (if k \<in> set keys then Some (measure env k j) else None)" for j
    by (induction keys) auto
  show ?case
    unfolding fit_loop_snoc
    by (simp add: fit_epoch_def Let_def st_model_fit_loop history_append_distinct [OF d] look Suc)
qed

lemma maximised_val_acc: "maximised ''val_acc''"
proof -
  have "''val_acc'' = ''val_'' @ ''acc'' @ []" by simp
  then have "sublist ''acc'' ''val_acc''" unfolding sublist_def by blast
  then show ?thesis by (simp add: maximised_def)
qed

lemma lookup_logs:
  "k \<in> set keys \<Longrightarrow> map_of (map (\<lambda>k. (k, f k)) keys) k = Some (f k)"
  by (induction keys) auto

lemma interval_Suc: "{e <.. e + Suc n} = insert (e + Suc n) {e <.. e + n}"
  by auto

lemma fit_epoch_checkpoint:
  assumes "st_callbacks st = [cb]" and "monitor cb \<in> set keys"
  shows "st_callbacks (fit_epoch env keys st)
          = [if improves cb (measure env (monitor cb) (Suc (epochs_done (st_model st))))
             then cb\<lparr>best := Some (measure env (monitor cb) (Suc (epochs_done (st_model st))))\<rparr>
             else cb]"
    and "st_world (fit_epoch env keys st)
          = (if improves cb (measure env (monitor cb) (Suc (epochs_done (st_model st))))
             then write_file (filepath cb)
                    (SavedModel ((st_model st)\<lparr>epochs_done := Suc (epochs_done (st_model st))\<rparr>))
                    (st_world st)
             else st_world st)"
  using assms by (simp_all add: fit_epoch_def Let_def on_epoch_end_def lookup_logs)

lemma fit_loop_checkpoint:
  assumes cb: "st_callbacks st = [\<lparr>filepath = p, monitor = mon, best = None\<rparr>]"
    and mon: "mon \<in> set keys" "maximised mon"
  shows "st_world (fit_loop env keys n st)
       = fold (\<lambda>j. write_file p (SavedModel ((st_model st)\<lparr>epochs_done := j\<rparr>)))
           (improvements (measure env mon) (epochs_done (st_model st)) n) (st_world st)
     \<and> st_callbacks (fit_loop env keys n st)
       = [\<lparr>filepath = p, monitor = mon,
           best = (if n = 0 then None
                   else Some (Max (measure env mon ` {epochs_done (st_model st) <.. epochs_done (st_model st) + n}))
                  )\<rparr>]"
proof (induction n)
  case 0
  show ?case by (simp add: cb)
next
  case (Suc n)
  define e where "e = epochs_done (st_model st)"
  define v where "v = measure env mon"
  define prev where "prev = fit_loop env keys n st"
  define A where "A = v ` {e <.. e + n}"
  define b where "b = (if n = 0 then None else Some (Max A))"
  define c where "c = \<lparr>filepath = p, monitor = mon, best = b\<rparr>"
  define x where "x = v (e + Suc n)"
  have fin: "finite A" by (simp add: A_def)
  have empty: "A = {} \<longleftrightarrow> n = 0" by (auto simp: A_def)
  have ep: "epochs_done (st_model prev) = e + n"
    by (simp add: prev_def st_model_fit_loop e_def)
  have m: "(st_model prev)\<lparr>epochs_done := Suc (epochs_done (st_model prev))\<rparr>
      = (st_model st)\<lparr>epochs_done := e + Suc n\<rparr>"
    by (simp add: prev_def st_model_fit_loop e_def)
  have imp: "improves c x \<longleftrightarrow> (\<forall>i \<in> {e <.. e + n}. v i < x)"
  proof (cases "n = 0")
    case True
    then show ?thesis by (simp add: improves_def c_def b_def)
  next
    case False
    then have "A \<noteq> {}" using empty by simp
    with fin have "Max A < x \<longleftrightarrow> (\<forall>a \<in> A. a < x)" by (rule Max_less_iff)
    then show ?thesis using False mon(2) by (auto simp add: improves_def A_def c_def b_def)
  qed
  have newmax: "Some (Max (v ` {e <.. e + Suc n})) = (if improves c x then Some x else b)"
  proof (cases "n = 0")
    case True
    have "{e <.. Suc e} = {Suc e}" by auto
    moreover have "improves c x" using True by (simp add: imp)
    ultimately show ?thesis using True by (simp add: x_def)
  next
    case False
    then have ne: "A \<noteq> {}" using empty by simp
    have "Max (v ` {e <.. e + Suc n}) = max x (Max A)"
      unfolding interval_Suc image_insert A_def [symmetric] x_def using fin ne by (rule Max_insert)
    moreover have "improves c x \<longleftrightarrow> Max A < x"
      using False mon(2) by (simp add: improves_def c_def b_def)
    moreover have "b = Some (Max A)" using False by (simp add: b_def)
    ultimately show ?thesis by (simp add: max_def)
  qed
  have IH1: "st_world prev = fold (\<lambda>j. write_file p (SavedModel ((st_model st)\<lparr>epochs_done := j\<rparr>)))
           (improvements v e n) (st_world st)"
    and IH2: "st_callbacks prev = [c]"
    using Suc by (simp_all add: prev_def v_def e_def A_def c_def b_def)
  have mc: "monitor c \<in> set keys" using mon(1) by (simp add: c_def)
  have xx: "measure env (monitor c) (Suc (epochs_done (st_model prev))) = x"
    by (simp add: c_def ep x_def v_def)
  have imps: "improvements v e (Suc n) = improvements v e n @ (if improves c x then [e + Suc n] else [])"
    using imp by (simp add: x_def)
  have W: "st_world (fit_epoch env keys prev)
       = fold (\<lambda>j. write_file p (SavedModel ((st_model st)\<lparr>epochs_done := j\<rparr>)))
           (improvements v e (Suc n)) (st_world st)"
    unfolding fit_epoch_checkpoint(2) [OF IH2 mc] xx m imps
    by (simp add: IH1 c_def)
  have C: "st_callbacks (fit_epoch env keys prev)
       = [\<lparr>filepath = p, monitor = mon, best = Some (Max (v ` {e <.. e + Suc n}))\<rparr>]"
    unfolding fit_epoch_checkpoint(1) [OF IH2 mc] xx newmax
    by (simp add: c_def)
  show ?case
    unfolding fit_loop_snoc prev_def [symmetric] e_def [symmetric] v_def [symmetric]
    using W C by simp
qed

section \<open>The stages of the script\<close>

lemma fold_write_file_log:
  "log (fold (\<lambda>j. write_file p (c j)) js w) = log w @ map (\<lambda>j. Write p (c j)) js"
  by (induction js arbitrary: w) (simp_all add: write_file_def)

lemma fold_write_file_files:
  "files (fold (\<lambda>j. write_file p (c j)) js w)
     = (if js = [] then files w else (files w)(p \<mapsto> c (last js)))"
  by (induction js arbitrary: w) (auto simp: write_file_def)

lemma log_keys_tune: "log_keys with_accuracy True = tune_keys"
  by (simp add: log_keys_def with_accuracy_def metric_key_def tune_keys_def)

lemma fresh_model_eq:
  "fresh_model env a train_data train_labels w =
     (Inr (intermediate env a),
      write_file ''intermediate_model.hdf5'' (SavedModel (intermediate env a))
        (emit (Compile loss_only)
          (emit (Fit (head_call env a train_data train_labels))
            (emit (Compile with_accuracy) w))))"
  by (simp add: fresh_model_def bind_io_def compile_def fit_def Let_def fit_epoch_def
        save_def return_io_def head_call_def head_model_def intermediate_def)

lemma files_write_file [simp]: "files (write_file p c w) = (files w)(p \<mapsto> c)"
  by (simp add: write_file_def)

lemma log_write_file [simp]: "log (write_file p c w) = log w @ [Write p c]"
  by (simp add: write_file_def)

lemma train_eq:
  fixes env a model n train_data train_labels val_data val_labels w
  defines "st \<equiv> fit_loop env tune_keys (nat n)
                   \<lparr>st_model = model\<lparr>compiled := Some with_accuracy\<rparr>, st_history = Map.empty,
                    st_callbacks = [\<lparr>filepath = checkpoint_path a, monitor = ''val_acc'', best = None\<rparr>],
                    st_world = emit (Fit (tune_call a model n train_data train_labels val_data val_labels))
                                 (emit (Compile with_accuracy) w)\<rparr>"
  shows "train env a model n train_data train_labels val_data val_labels w =
     (if graphical_history a then plot_history (history_path a) (st_history st) (st_world st)
      else (Inr (), st_world st))"
  by (simp add: train_def bind_io_def compile_def fit_def Let_def log_keys_tune tune_call_def
        return_io_def st_def)

lemma fold_map: "fold f (map g xs) w = fold (\<lambda>x. f (g x)) xs w"
  by (induction xs arbitrary: w) simp_all

lemma train_result:
  "train env a model n train_data train_labels val_data val_labels w =
     (if graphical_history a
      then if 0 < n
           then (Inr (), write_file (history_path a) (Figure (history_figure env model n))
                           (trained env a model n train_data train_labels val_data val_labels w))
           else (Inl KeyError, trained env a model n train_data train_labels val_data val_labels w)
      else (Inr (), trained env a model n train_data train_labels val_data val_labels w))"
proof -
  define st0 where "st0 = \<lparr>st_model = model\<lparr>compiled := Some with_accuracy\<rparr>, st_history = Map.empty,
                    st_callbacks = [\<lparr>filepath = checkpoint_path a, monitor = ''val_acc'', best = None\<rparr>],
                    st_world = emit (Fit (tune_call a model n train_data train_labels val_data val_labels))
                                 (emit (Compile with_accuracy) w)\<rparr>"
  define st where "st = fit_loop env tune_keys (nat n) st0"
  have cb: "st_callbacks st0 = [\<lparr>filepath = checkpoint_path a, monitor = ''val_acc'', best = None\<rparr>]"
    by (simp add: st0_def)
  have "''val_acc'' \<in> set tune_keys" by (simp add: tune_keys_def)
  from fit_loop_checkpoint [OF cb this maximised_val_acc, of env "nat n"]
  have W: "st_world st = trained env a model n train_data train_labels val_data val_labels w"
    by (simp add: st_def st0_def trained_def checkpoints_def fold_map)
  have d: "distinct tune_keys" by (simp add: tune_keys_def)
  have H: "st_history st k = (if k \<in> set tune_keys \<and> 0 < n then Some (series env model n k) else None)" for k
    unfolding st_def st_history_fit_loop [OF d] by (simp add: st0_def series_def)
  have T: "train env a model n train_data train_labels val_data val_labels w =
     (if graphical_history a then plot_history (history_path a) (st_history st) (st_world st)
      else (Inr (), st_world st))"
    unfolding st_def st0_def by (rule train_eq)
  show ?thesis
    unfolding T W by (simp add: plot_history_def H tune_keys_def history_figure_def)
qed

lemma log_trained:
  "log (trained env a model n train_data train_labels val_data val_labels w)
     = log w @ [Compile with_accuracy,
                Fit (tune_call a model n train_data train_labels val_data val_labels)]
         @ map (Write (checkpoint_path a)) (checkpoints env model n)"
  by (simp add: trained_def fold_write_file_log [where c = "\<lambda>c. c", simplified])

lemma files_trained:
  "files (trained env a model n train_data train_labels val_data val_labels w)
     = (if checkpoints env model n = [] then files w
        else (files w)(checkpoint_path a \<mapsto> last (checkpoints env model n)))"
  by (simp add: trained_def fold_write_file_files [where c = "\<lambda>c. c", simplified])

section \<open>A whole run\<close>

lemma snd_bind_io:
  "snd (bind_io m f w) = (case fst (m w) of Inl e \<Rightarrow> snd (m w) | Inr x \<Rightarrow> snd (f x (snd (m w))))"
  by (simp add: bind_io_def split: prod.splits sum.splits)

lemma bind_io_preserves:
  assumes "\<And>w. R w (snd (m w))" and "\<And>x w. R w (snd (f x w))"
    and "\<And>w w' w''. R w w' \<Longrightarrow> R w' w'' \<Longrightarrow> R w w''"
  shows "R w (snd (bind_io m f w))"
proof (cases "fst (m w)")
  case (Inl e)
  then show ?thesis by (simp add: snd_bind_io assms(1))
next
  case (Inr x)
  have "R w (snd (f x (snd (m w))))" using assms(1) assms(2) by (rule assms(3))
  with Inr show ?thesis by (simp add: snd_bind_io)
qed

lemma reads_only_refl: "reads_only p w w"
  unfolding reads_only_def by (rule exI [of _ 0]) simp

lemma reads_only_emit: "reads_only p w (emit (Read p) w)"
  unfolding reads_only_def by (rule exI [of _ 1]) (simp add: emit_def)

lemma reads_only_trans: "reads_only p w w' \<Longrightarrow> reads_only p w' w'' \<Longrightarrow> reads_only p w w''"
  unfolding reads_only_def
  by (auto simp: replicate_add [symmetric] simp del: replicate_add)

lemma reads_only_bind:
  assumes "\<And>w. reads_only p w (snd (m w))" and "\<And>x w. reads_only p w (snd (f x w))"
  shows "reads_only p w (snd (bind_io m f w))"
  using assms reads_only_trans by (rule bind_io_preserves [where R = "reads_only p"])

lemma load_data_reads: "reads_only (file_input a) w (snd (load_data a w))"
  unfolding load_data_def
  by (intro reads_only_bind) (auto simp: reads_only_refl reads_only_emit split: option.splits intro!: reads_only_bind)

lemma load_data_world:
  "\<exists>k. snd (load_data a w) = w\<lparr>log := log w @ replicate k (Read (file_input a))\<rparr>"
  using load_data_reads [of a w] by (simp add: reads_only_def)

lemma io_eqI: "fst r = x \<Longrightarrow> r = (x, snd r)"
  by (cases r) simp

lemma on_devices_epochs [simp]: "epochs_done (on_devices env g m) = epochs_done m"
  by (simp add: on_devices_def Model_def multi_gpu_model_def)

lemma run_load_failed:
  assumes "fst (load_data (normalise a) (start fs)) = Inl e"
  shows "run env a fs = (Inl e, snd (load_data (normalise a) (start fs)))"
proof -
  have "load_data (normalise a) \<lparr>files = fs, log = []\<rparr>
      = (Inl e, snd (load_data (normalise a) (start fs)))"
    using io_eqI [OF assms] by (simp add: start_def)
  then show ?thesis by (simp add: run_def main_def Let_def bind_io_def)
qed

lemma run_fresh:
  assumes "\<not> truthy (input_model a)"
    and "fst (load_data (normalise a) (start fs)) = Inr (train_data, train_labels, val_data, val_labels)"
  shows "run env a fs =
     train env (normalise a) (on_devices env (GPUs a) (intermediate env (normalise a)))
       (max 1 (epochs a - 1)) train_data train_labels val_data val_labels
       (emit (Read ''intermediate_model.hdf5'')
         (write_file ''intermediate_model.hdf5'' (SavedModel (intermediate env (normalise a)))
           (emit (Compile loss_only)
             (emit (Fit (head_call env (normalise a) train_data train_labels))
               (emit (Compile with_accuracy) (snd (load_data (normalise a) (start fs))))))))"
proof -
  have n: "input_model (normalise a) = input_model a" "GPUs (normalise a) = GPUs a"
    "epochs (normalise a) = epochs a"
    by (simp_all add: normalise_def)
  have L: "load_data (normalise a) \<lparr>files = fs, log = []\<rparr>
      = (Inr (train_data, train_labels, val_data, val_labels), snd (load_data (normalise a) (start fs)))"
    using io_eqI [OF assms(2)] by (simp add: start_def)
  show ?thesis
    using assms(1)
    by (simp add: run_def main_def Let_def bind_io_def L build_model_def n fresh_model_eq
          return_io_def second_phase_def load_model_def)
qed

lemma run_resume:
  assumes "truthy (input_model a)"
    and "fst (load_data (normalise a) (start fs)) = Inr (train_data, train_labels, val_data, val_labels)"
  shows "run env a fs =
     (case fs (the (input_model a)) of
        Some (SavedModel m) \<Rightarrow>
          train env (normalise a) (on_devices env (GPUs a) m) (epochs a)
            train_data train_labels val_data val_labels
            (emit (Read (the (input_model a))) (snd (load_data (normalise a) (start fs))))
      | _ \<Rightarrow> (Inl OSError, emit (Read (the (input_model a))) (snd (load_data (normalise a) (start fs)))))"
proof -
  have n: "input_model (normalise a) = input_model a" "GPUs (normalise a) = GPUs a"
    "epochs (normalise a) = epochs a"
    by (simp_all add: normalise_def)
  have L: "load_data (normalise a) \<lparr>files = fs, log = []\<rparr>
      = (Inr (train_data, train_labels, val_data, val_labels), snd (load_data (normalise a) (start fs)))"
    using io_eqI [OF assms(2)] by (simp add: start_def)
  obtain k where k: "snd (load_data (normalise a) (start fs))
      = (start fs)\<lparr>log := log (start fs) @ replicate k (Read (file_input (normalise a)))\<rparr>"
    using load_data_world by blast
  have F: "files (snd (load_data (normalise a) (start fs))) = fs"
    unfolding k by (simp add: start_def)
  show ?thesis
    using assms(1)
    by (simp add: run_def main_def Let_def bind_io_def L build_model_def n resume_model_def
          return_io_def second_phase_def load_model_def F split: option.splits disk_file.splits)
qed

lemma fit_calls_append [simp]: "fit_calls (xs @ ys) = fit_calls xs @ fit_calls ys"
  by (induction xs rule: fit_calls.induct) simp_all

lemma saved_to_append [simp]: "saved_to p (xs @ ys) = saved_to p xs @ saved_to p ys"
  by (induction p xs rule: saved_to.induct) simp_all

lemma fit_calls_reads [simp]: "fit_calls (replicate k (Read p)) = []"
  by (induction k) simp_all

lemma saved_to_reads [simp]: "saved_to p (replicate k (Read q)) = []"
  by (induction k) simp_all

lemma fit_calls_writes [simp]: "fit_calls (map (Write p) cs) = []"
  by (induction cs) simp_all

lemma saved_to_checkpoints [simp]:
  "saved_to p (map (Write q) (map SavedModel ms)) = (if q = p then ms else [])"
  by (induction ms) auto

lemma improvements_set:
  "j \<in> set (improvements v e n) \<Longrightarrow> e < j \<and> j \<le> e + n \<and> (\<forall>i. e < i \<and> i < j \<longrightarrow> v i < v j)"
  by (induction n) (auto split: if_splits)

lemma improvements_last:
  "0 < n \<Longrightarrow> improvements v e n \<noteq> []
     \<and> (\<forall>i. e < i \<and> i \<le> e + n \<longrightarrow> v i \<le> v (last (improvements v e n)))"
proof (induction n)
  case 0
  then show ?case by simp
next
  case (Suc n)
  show ?case
  proof (cases "\<forall>i \<in> {e <.. e + n}. v i < v (e + Suc n)")
    case True
    then have "v i \<le> v (e + Suc n)" if "e < i" "i \<le> e + Suc n" for i
      using that by (cases "i = e + Suc n") (auto simp: less_imp_le)
    with True show ?thesis by simp
  next
    case False
    then have n: "0 < n" by (cases n) auto
    note IH = Suc.IH [OF n]
    from False obtain k where k: "e < k" "k \<le> e + n" "v (e + Suc n) \<le> v k"
      by (auto simp: not_less)
    with IH have "v (e + Suc n) \<le> v (last (improvements v e n))"
      by (meson order_trans)
    with IH have "v i \<le> v (last (improvements v e n))" if "e < i" "i \<le> e + Suc n" for i
      using that by (cases "i = e + Suc n") auto
    with False IH show ?thesis by simp
  qed
qed

lemma improvements_sorted:
  "sorted_wrt (\<lambda>i j. i < j \<and> v i < v j) (improvements v e n)"
proof (induction n)
  case 0
  show ?case by simp
next
  case (Suc n)
  have "x \<in> {e <.. e + n} \<and> x < e + Suc n" if "x \<in> set (improvements v e n)" for x
    using improvements_set [OF that] by simp
  with Suc show ?case by (simp add: sorted_wrt_append)
qed

lemma normalise_simps [simp]:
  "input_model (normalise a) = input_model a" "GPUs (normalise a) = GPUs a"
  "epochs (normalise a) = epochs a" "file_input (normalise a) = file_input a"
  "batch_size (normalise a) = batch_size a" "tiles (normalise a) = tiles a"
  "output_name (normalise a) = output_name a"
  "graphical_history (normalise a) = graphical_history a"
  "output_directory (normalise a) = rstrip CHR ''/'' (output_directory a)"
  by (simp_all add: normalise_def)

lemma loaded_log:
  "\<exists>k. log (snd (load_data (normalise a) (start fs))) = replicate k (Read (file_input a))"
proof -
  obtain k where "snd (load_data (normalise a) (start fs))
      = (start fs)\<lparr>log := log (start fs) @ replicate k (Read (file_input (normalise a)))\<rparr>"
    using load_data_world by blast
  then have "log (snd (load_data (normalise a) (start fs))) = replicate k (Read (file_input a))"
    by (simp add: start_def)
  then show ?thesis ..
qed

lemma run_load_failed_log:
  assumes "fst (load_data (normalise a) (start fs)) = Inl e"
  shows "fst (run env a fs) = Inl e"
    and "\<exists>k. log (snd (run env a fs)) = replicate k (Read (file_input a))"
  using loaded_log [of a fs] by (simp_all add: run_load_failed [OF assms])

lemma run_fresh_log:
  fixes env :: env
  assumes "\<not> truthy (input_model a)"
    and "fst (load_data (normalise a) (start fs)) = Inr (train_data, train_labels, val_data, val_labels)"
  defines "model \<equiv> on_devices env (GPUs a) (intermediate env (normalise a))"
  shows "fst (run env a fs) = Inr ()"
    and "\<exists>k. log (snd (run env a fs)) =
      replicate k (Read (file_input a))
      @ [Compile with_accuracy, Fit (head_call env (normalise a) train_data train_labels),
         Compile loss_only,
         Write ''intermediate_model.hdf5'' (SavedModel (intermediate env (normalise a))),
         Read ''intermediate_model.hdf5'', Compile with_accuracy,
         Fit (tune_call (normalise a) model (max 1 (epochs a - 1))
                train_data train_labels val_data val_labels)]
      @ map (Write (checkpoint_path (normalise a))) (checkpoints env model (max 1 (epochs a - 1)))
      @ (if graphical_history a
         then [Write (history_path (normalise a))
                 (Figure (history_figure env model (max 1 (epochs a - 1))))]
         else [])"
  using loaded_log [of a fs]
  by (auto simp add: run_fresh [OF assms(1,2)] train_result log_trained model_def)

lemma run_resume_log:
  fixes env :: env
  assumes "truthy (input_model a)"
    and "fst (load_data (normalise a) (start fs)) = Inr (train_data, train_labels, val_data, val_labels)"
    and "fs (the (input_model a)) = Some (SavedModel m)"
  defines "model \<equiv> on_devices env (GPUs a) m"
  shows "fst (run env a fs) = (if graphical_history a \<and> epochs a \<le> 0 then Inl KeyError else Inr ())"
    and "\<exists>k. log (snd (run env a fs)) =
      replicate k (Read (file_input a))
      @ [Read (the (input_model a)), Compile with_accuracy,
         Fit (tune_call (normalise a) model (epochs a)
                train_data train_labels val_data val_labels)]
      @ map (Write (checkpoint_path (normalise a))) (checkpoints env model (epochs a))
      @ (if graphical_history a \<and> 0 < epochs a
         then [Write (history_path (normalise a)) (Figure (history_figure env model (epochs a)))]
         else [])"
  using loaded_log [of a fs]
  by (auto simp add: run_resume [OF assms(1,2)] assms(3) train_result log_trained model_def)

lemma run_resume_failed_log:
  assumes "truthy (input_model a)"
    and "fst (load_data (normalise a) (start fs)) = Inr (train_data, train_labels, val_data, val_labels)"
    and "\<nexists>m. fs (the (input_model a)) = Some (SavedModel m)"
  shows "fst (run env a fs) = Inl OSError"
    and "\<exists>k. log (snd (run env a fs)) =
      replicate k (Read (file_input a)) @ [Read (the (input_model a))]"
  using loaded_log [of a fs] assms(3)
  by (auto simp add: run_resume [OF assms(1,2)] split: option.splits disk_file.splits)

lemma fit_epochs_tune_call [simp]: "fit_epochs (tune_call a m n td tlab vd vlab) = n"
  by (simp add: tune_call_def)

lemma load_cases:
  obtains (failed) e where "fst (load_data (normalise a) (start fs)) = Inl e"
  | (loaded) train_data train_labels val_data val_labels
      where "fst (load_data (normalise a) (start fs))
               = Inr (train_data, train_labels, val_data, val_labels)"
proof (cases "fst (load_data (normalise a) (start fs))")
  case (Inl e)
  then show ?thesis by (rule failed)
next
  case (Inr d)
  obtain train_data train_labels val_data val_labels
    where "d = (train_data, train_labels, val_data, val_labels)" by (cases d)
  with Inr show ?thesis by (simp add: loaded)
qed

lemma fit_calls_run:
  "fit_calls (log (snd (run env a fs))) = [] \<or>
   (\<exists>train_data train_labels val_data val_labels.
      fst (load_data (normalise a) (start fs)) = Inr (train_data, train_labels, val_data, val_labels)
    \<and> (if truthy (input_model a)
       then \<exists>m. fs (the (input_model a)) = Some (SavedModel m)
              \<and> fit_calls (log (snd (run env a fs)))
                = [tune_call (normalise a) (on_devices env (GPUs a) m) (epochs a)
                     train_data train_labels val_data val_labels]
       else fit_calls (log (snd (run env a fs)))
                = [head_call env (normalise a) train_data train_labels,
                   tune_call (normalise a)
                     (on_devices env (GPUs a) (intermediate env (normalise a)))
                     (max 1 (epochs a - 1)) train_data train_labels val_data val_labels]))"
proof (cases a fs rule: load_cases)
  case (failed e)
  from run_load_failed_log(2) [OF this, of env] show ?thesis by auto
next
  case (loaded train_data train_labels val_data val_labels)
  show ?thesis
  proof (cases "truthy (input_model a)")
    case False
    from run_fresh_log(2) [OF False loaded, of env] loaded False show ?thesis by auto
  next
    case True
    show ?thesis
    proof (cases "\<exists>m. fs (the (input_model a)) = Some (SavedModel m)")
      case False
      from run_resume_failed_log(2) [OF True loaded False, of env] show ?thesis by auto
    next
      case yes: True
      then obtain m where m: "fs (the (input_model a)) = Some (SavedModel m)" ..
      from run_resume_log(2) [OF True loaded m, of env] loaded True m show ?thesis by auto
    qed
  qed
qed

section \<open>The claims\<close>

text \<open>
  Claim C1.  Whenever a run calls \<^verbatim>\<open>fit\<close> at all, its last call, the fine-tuning
  one, is passed \<open>max 1 (epochs - 1)\<close> epochs when the test on \<^verbatim>\<open>args.input_model\<close>
  failed (no input model, the fresh path), and the requested number of epochs unchanged
  when it succeeded (an input model was given, the resume path).
\<close>

theorem final_fit_epochs:
  assumes "fit_calls (log (snd (run env a fs))) \<noteq> []"
  shows "fit_epochs (last (fit_calls (log (snd (run env a fs)))))
       = (if truthy (input_model a) then epochs a else max 1 (epochs a - 1))"
  using fit_calls_run [of env a fs] assms by (auto split: if_splits)

lemma example_fresh_loaded:
  "fst (load_data (normalise fresh_args) (start example_files))
     = Inr (\<lparr>datapath = ''tiles.h5'', dataset = ''train_img'', h5_data = [100 ..< 120],
              h5_start = 0, h5_end = 16\<rparr>,
            map (one_hot 2) [0, 1, 1, 0, 1, 0, 0, 1, 1, 0, 0, 1, 0, 1, 1, 0],
            \<lparr>datapath = ''tiles.h5'', dataset = ''val_img'', h5_data = [200 ..< 210],
              h5_start = 0, h5_end = 4\<rparr>,
            map (one_hot 2) [0, 1, 0, 1])"
  by code_simp

lemma example_resume_loaded:
  "fst (load_data (normalise resume_args) (start example_files))
     = Inr (\<lparr>datapath = ''tiles.h5'', dataset = ''train_img'', h5_data = [100 ..< 120],
              h5_start = 0, h5_end = 20\<rparr>,
            map (one_hot 2) [0, 1, 1, 0, 1, 0, 0, 1, 1, 0, 0, 1, 0, 1, 1, 0, 1, 0, 0, 1],
            \<lparr>datapath = ''tiles.h5'', dataset = ''val_img'', h5_data = [200 ..< 210],
              h5_start = 0, h5_end = 10\<rparr>,
            map (one_hot 2) [0, 1, 0, 1, 1, 0, 1, 0, 0, 1])"
  by code_simp

lemma figures_append [simp]: "figures (xs @ ys) = figures xs @ figures ys"
  by (induction xs rule: figures.induct) simp_all

lemma figures_reads [simp]: "figures (replicate k (Read p)) = []"
  by (induction k) simp_all

lemma figures_checkpoints [simp]: "figures (map (Write q) (map SavedModel ms)) = []"
  by (induction ms) simp_all

lemma checkpoint_path_not_intermediate: "checkpoint_path a \<noteq> ''intermediate_model.hdf5''"
proof
  assume "checkpoint_path a = ''intermediate_model.hdf5''"
  then have "rev (checkpoint_path a) = rev ''intermediate_model.hdf5''" by simp
  then show False by (simp add: checkpoint_path_def)
qed

lemma history_path_not_intermediate: "history_path a \<noteq> ''intermediate_model.hdf5''"
proof
  assume "history_path a = ''intermediate_model.hdf5''"
  then have "rev (history_path a) = rev ''intermediate_model.hdf5''" by simp
  then show False by (simp add: history_path_def)
qed

lemma history_path_not_checkpoint: "history_path a \<noteq> checkpoint_path a"
  by (simp add: history_path_def checkpoint_path_def)

lemma checkpoints_models:
  "checkpoints env model n
     = map SavedModel (map (\<lambda>j. model\<lparr>compiled := Some with_accuracy, epochs_done := j\<rparr>)
         (improvements (measure env ''val_acc'') (epochs_done model) (nat n)))"
  by (simp add: checkpoints_def)

lemma run_trained:
  assumes "fit_calls (log (snd (run env a fs))) \<noteq> []"
  obtains model pre train_data train_labels val_data val_labels where
    "log (snd (run env a fs)) =
       pre @ [Compile with_accuracy,
              Fit (tune_call (normalise a) model
                     (if truthy (input_model a) then epochs a else max 1 (epochs a - 1))
                     train_data train_labels val_data val_labels)]
       @ map (Write (checkpoint_path (normalise a)))
           (checkpoints env model (if truthy (input_model a) then epochs a else max 1 (epochs a - 1)))
       @ (if graphical_history a \<and> 0 < (if truthy (input_model a) then epochs a else max 1 (epochs a - 1))
          then [Write (history_path (normalise a))
                  (Figure (history_figure env model
                     (if truthy (input_model a) then epochs a else max 1 (epochs a - 1))))]
          else [])"
    and "saved_to (checkpoint_path (normalise a)) pre = []"
    and "figures pre = []"
    and "checkpoints env model (if truthy (input_model a) then epochs a else max 1 (epochs a - 1)) = []
         \<or> files (snd (run env a fs)) (checkpoint_path (normalise a))
             = Some (last (checkpoints env model (if truthy (input_model a) then epochs a else max 1 (epochs a - 1))))"
proof (cases a fs rule: load_cases)
  case (failed e)
  from run_load_failed_log(2) [OF this, of env] assms show ?thesis by auto
next
  case (loaded train_data train_labels val_data val_labels)
  show ?thesis
  proof (cases "truthy (input_model a)")
    case False
    define model where "model = on_devices env (GPUs a) (intermediate env (normalise a))"
    from run_fresh_log(2) [OF False loaded, of env] obtain k where
      L: "log (snd (run env a fs)) =
        (replicate k (Read (file_input a))
          @ [Compile with_accuracy, Fit (head_call env (normalise a) train_data train_labels),
             Compile loss_only,
             Write ''intermediate_model.hdf5'' (SavedModel (intermediate env (normalise a))),
             Read ''intermediate_model.hdf5''])
        @ [Compile with_accuracy,
           Fit (tune_call (normalise a) model (max 1 (epochs a - 1))
                train_data train_labels val_data val_labels)]
        @ map (Write (checkpoint_path (normalise a))) (checkpoints env model (max 1 (epochs a - 1)))
        @ (if graphical_history a
           then [Write (history_path (normalise a))
                 (Figure (history_figure env model (max 1 (epochs a - 1))))]
           else [])"
      unfolding model_def by auto
    have F: "files (snd (run env a fs)) (checkpoint_path (normalise a))
         = Some (last (checkpoints env model (max 1 (epochs a - 1))))"
      if "checkpoints env model (max 1 (epochs a - 1)) \<noteq> []"
    proof -
      define n where "n = max 1 (epochs a - 1)"
      have pos: "0 < n" by (simp add: n_def)
      show ?thesis
        using that history_path_not_checkpoint [of "normalise a"] pos
        unfolding run_fresh [OF False loaded] train_result model_def [symmetric] n_def [symmetric]
        by (simp add: files_trained)
    qed
    have pos: "0 < max 1 (epochs a - 1)" by simp
    from F have F: "checkpoints env model (max 1 (epochs a - 1)) = []
        \<or> files (snd (run env a fs)) (checkpoint_path (normalise a))
         = Some (last (checkpoints env model (max 1 (epochs a - 1))))" by blast
    show ?thesis
    proof (rule that [of "replicate k (Read (file_input a))
          @ [Compile with_accuracy, Fit (head_call env (normalise a) train_data train_labels),
             Compile loss_only,
             Write ''intermediate_model.hdf5'' (SavedModel (intermediate env (normalise a))),
             Read ''intermediate_model.hdf5'']" model train_data train_labels val_data val_labels])
      show "saved_to (checkpoint_path (normalise a))
         (replicate k (Read (file_input a))
          @ [Compile with_accuracy, Fit (head_call env (normalise a) train_data train_labels),
             Compile loss_only,
             Write ''intermediate_model.hdf5'' (SavedModel (intermediate env (normalise a))),
             Read ''intermediate_model.hdf5'']) = []"
        using checkpoint_path_not_intermediate [of "normalise a", symmetric] by simp
    qed (use L F False pos in \<open>simp_all only: if_False if_True simp_thms figures_append figures_reads figures.simps append_Nil2\<close>)
  next
    case True
    show ?thesis
    proof (cases "\<exists>m. fs (the (input_model a)) = Some (SavedModel m)")
      case False
      from run_resume_failed_log(2) [OF True loaded False, of env] assms show ?thesis by auto
    next
      case yes: True
      then obtain m where m: "fs (the (input_model a)) = Some (SavedModel m)" ..
      define model where "model = on_devices env (GPUs a) m"
      from run_resume_log(2) [OF True loaded m, of env] obtain k where
        L: "log (snd (run env a fs)) =
          (replicate k (Read (file_input a)) @ [Read (the (input_model a))])
          @ [Compile with_accuracy,
             Fit (tune_call (normalise a) model (epochs a)
                  train_data train_labels val_data val_labels)]
          @ map (Write (checkpoint_path (normalise a))) (checkpoints env model (epochs a))
          @ (if graphical_history a \<and> 0 < epochs a
             then [Write (history_path (normalise a)) (Figure (history_figure env model (epochs a)))]
             else [])"
        unfolding model_def by auto
      have F: "files (snd (run env a fs)) (checkpoint_path (normalise a))
           = Some (last (checkpoints env model (epochs a)))"
        if "checkpoints env model (epochs a) \<noteq> []"
        using that history_path_not_checkpoint [of "normalise a"]
        by (simp add: run_resume [OF True loaded] m train_result files_trained model_def)
      from F have F: "checkpoints env model (epochs a) = []
          \<or> files (snd (run env a fs)) (checkpoint_path (normalise a))
           = Some (last (checkpoints env model (epochs a)))" by blast
      show ?thesis
      proof (rule that [of "replicate k (Read (file_input a)) @ [Read (the (input_model a))]"
            model train_data train_labels val_data val_labels])
      qed (use L F True in \<open>simp_all\<close>)
    qed
  qed
qed

lemma example_fresh: "\<not> truthy (input_model fresh_args)"
  by (simp add: truthy_def fresh_args_def)

lemma example_resume: "truthy (input_model resume_args)"
  by (simp add: truthy_def resume_args_def)

lemma example_prior:
  "example_files (the (input_model resume_args))
     = Some (SavedModel \<lparr>layers = replicate 315 True, compiled = None, epochs_done = 7\<rparr>)"
  by (simp add: example_files_def resume_args_def)

text \<open>
  The fresh run of three epochs fine-tunes for two, the resumed run of five for five.
\<close>

theorem final_fit_epochs_witness:
  "fit_calls (log (snd (run example_env fresh_args example_files))) \<noteq> []
   \<and> fit_epochs (last (fit_calls (log (snd (run example_env fresh_args example_files))))) = 2
   \<and> fit_calls (log (snd (run example_env resume_args example_files))) \<noteq> []
   \<and> fit_epochs (last (fit_calls (log (snd (run example_env resume_args example_files))))) = 5"
proof -
  from run_fresh_log(2) [OF example_fresh example_fresh_loaded, of example_env]
  have 1: "fit_calls (log (snd (run example_env fresh_args example_files))) \<noteq> []" by auto
  from run_resume_log(2) [OF example_resume example_resume_loaded example_prior, of example_env]
  have 2: "fit_calls (log (snd (run example_env resume_args example_files))) \<noteq> []" by auto
  from final_fit_epochs [OF 1] final_fit_epochs [OF 2] 1 2 example_fresh example_resume
  show ?thesis by (simp add: fresh_args_def resume_args_def)
qed

lemma flags_frozen:
  "i < length ls \<Longrightarrow> set_from 280 True (set_upto 280 False ls) ! i = (280 \<le> i)"
  by (auto simp: set_from_def set_upto_def nth_append min_def)

lemma length_set_upto [simp]: "length (set_upto k b ls) = length ls"
  by (simp add: set_upto_def)

lemma length_set_from [simp]: "length (set_from k b ls) = length ls"
  by (simp add: set_from_def)

lemma flags_thawed:
  "set_upto 280 True (set_from 280 True (set_upto 280 False ls)) = replicate (length ls) True"
  by (simp add: set_from_def set_upto_def map_replicate_const replicate_add [symmetric] min_def)

lemma head_call_simps [simp]:
  "fit_epochs (head_call env a td tlab) = 1"
  "fit_x (head_call env a td tlab) = td"
  "fit_y (head_call env a td tlab) = tlab"
  "fit_validation_data (head_call env a td tlab) = None"
  "fit_batch_size (head_call env a td tlab) = batch_size a"
  "fit_shuffle (head_call env a td tlab) = ''batch''"
  "fit_callbacks (head_call env a td tlab) = []"
  "compiled (fit_model (head_call env a td tlab)) = Some with_accuracy"
  "epochs_done (fit_model (head_call env a td tlab)) = 0"
  by (simp_all add: head_call_def head_model_def frozen_model_def Let_def inception_with_head_def)

lemma head_call_layers:
  "i < length (layers (fit_model (head_call env a td tlab)))
   \<Longrightarrow> layers (fit_model (head_call env a td tlab)) ! i = (280 \<le> i)"
  by (simp add: head_call_def head_model_def frozen_model_def Let_def flags_frozen)

lemma intermediate_simps [simp]:
  "epochs_done (intermediate env a) = 1"
  "compiled (intermediate env a) = Some loss_only"
  "layers (intermediate env a)
     = replicate (length (layers (fit_model (head_call env a td tlab)))) True"
  by (simp_all add: intermediate_def head_call_def head_model_def frozen_model_def Let_def
        inception_with_head_def flags_thawed)

lemma tune_call_simps [simp]:
  "fit_validation_data (tune_call a m n td tlab vd vlab) = Some (vd, vlab)"
  "fit_model (tune_call a m n td tlab vd vlab) = m\<lparr>compiled := Some with_accuracy\<rparr>"
  "fit_callbacks (tune_call a m n td tlab vd vlab)
     = [\<lparr>filepath = checkpoint_path a, monitor = ''val_acc'', best = None\<rparr>]"
  "fit_x (tune_call a m n td tlab vd vlab) = td"
  "fit_y (tune_call a m n td tlab vd vlab) = tlab"
  by (simp_all add: tune_call_def)

lemma checkpoints_eq: "checkpoints env model n = map SavedModel (checkpoint_models env model n)"
  by (simp add: checkpoints_def checkpoint_models_def)

lemma saved_to_ckpts [simp]:
  "saved_to p (map (Write q) (checkpoints env model n))
     = (if q = p then checkpoint_models env model n else [])"
  unfolding checkpoints_eq by (rule saved_to_checkpoints)

lemma figures_ckpts [simp]: "figures (map (Write q) (checkpoints env model n)) = []"
  unfolding checkpoints_eq by (rule figures_checkpoints)

lemma head_call_length:
  "length (layers (fit_model (head_call env a td tlab)))
     = (if GPUs a \<le> 1 then base_layers env + 4
        else length (wrap_layers env (GPUs a) (replicate (base_layers env + 4) True)))"
  by (simp add: head_call_def head_model_def frozen_model_def Let_def on_devices_def Model_def
        multi_gpu_model_def inception_with_head_def)

lemma run_fresh_split:
  assumes "\<not> truthy (input_model a)"
    and "fst (load_data (normalise a) (start fs))
           = Inr (train_data, train_labels, val_data, val_labels)"
  obtains k where
    "log (snd (run env a fs)) =
        (replicate k (Read (file_input a)) @ [Compile with_accuracy])
        @ Fit (head_call env (normalise a) train_data train_labels)
        # Compile loss_only
        # Write ''intermediate_model.hdf5'' (SavedModel (intermediate env (normalise a)))
        # Read ''intermediate_model.hdf5''
        # Compile with_accuracy
        # Fit (tune_call (normalise a) (on_devices env (GPUs a) (intermediate env (normalise a)))
                 (max 1 (epochs a - 1)) train_data train_labels val_data val_labels)
        # (map (Write (checkpoint_path (normalise a)))
             (checkpoints env (on_devices env (GPUs a) (intermediate env (normalise a)))
                (max 1 (epochs a - 1)))
           @ (if graphical_history a
              then [Write (history_path (normalise a))
                      (Figure (history_figure env
                         (on_devices env (GPUs a) (intermediate env (normalise a)))
                         (max 1 (epochs a - 1))))]
              else []))"
  using run_fresh_log(2) [OF assms, of env] by auto

text \<open>
  Claim C8.  On the fresh path the first call of \<^verbatim>\<open>fit\<close> is given the loaded training
  data and labels, one epoch, \<^verbatim>\<open>shuffle='batch'\<close>, no validation data and no callback;
  at that call the layers of index below 280 are not trainable and the others are; and
  the model saved afterwards is one epoch further.
\<close>

theorem head_training_epoch:
  assumes "\<not> truthy (input_model a)"
    and "fst (load_data (normalise a) (start fs))
           = Inr (train_data, train_labels, val_data, val_labels)"
  shows "\<exists>before f m after.
      log (snd (run env a fs)) = before @ Fit f # after
    \<and> fit_calls before = []
    \<and> fit_epochs f = 1 \<and> fit_x f = train_data \<and> fit_y f = train_labels
    \<and> fit_shuffle f = ''batch'' \<and> fit_validation_data f = None
    \<and> fit_batch_size f = batch_size a \<and> fit_callbacks f = []
    \<and> length (layers (fit_model f))
        = (if GPUs a \<le> 1 then base_layers env + 4
           else length (wrap_layers env (GPUs a) (replicate (base_layers env + 4) True)))
    \<and> (\<forall>i < length (layers (fit_model f)). layers (fit_model f) ! i = (280 \<le> i))
    \<and> saved_to ''intermediate_model.hdf5'' after = [m]
    \<and> epochs_done m = epochs_done (fit_model f) + 1"
proof -
  from assms obtain k where L: "log (snd (run env a fs)) =
        (replicate k (Read (file_input a)) @ [Compile with_accuracy])
        @ Fit (head_call env (normalise a) train_data train_labels)
        # Compile loss_only
        # Write ''intermediate_model.hdf5'' (SavedModel (intermediate env (normalise a)))
        # Read ''intermediate_model.hdf5''
        # Compile with_accuracy
        # Fit (tune_call (normalise a) (on_devices env (GPUs a) (intermediate env (normalise a)))
                 (max 1 (epochs a - 1)) train_data train_labels val_data val_labels)
        # (map (Write (checkpoint_path (normalise a)))
             (checkpoints env (on_devices env (GPUs a) (intermediate env (normalise a)))
                (max 1 (epochs a - 1)))
           @ (if graphical_history a
              then [Write (history_path (normalise a))
                      (Figure (history_figure env
                         (on_devices env (GPUs a) (intermediate env (normalise a)))
                         (max 1 (epochs a - 1))))]
              else []))"
    by (rule run_fresh_split)
  show ?thesis
    apply (rule exI [of _ "replicate k (Read (file_input a)) @ [Compile with_accuracy]"])
    apply (rule exI [of _ "head_call env (normalise a) train_data train_labels"])
    apply (rule exI [of _ "intermediate env (normalise a)"])
    apply (rule exI)
    apply (rule conjI [OF L])
    using checkpoint_path_not_intermediate [of "normalise a"]
    apply (simp add: head_call_layers head_call_length)
    done
qed

theorem head_training_epoch_witness:
  "\<not> truthy (input_model fresh_args)
   \<and> \<not> isl (fst (load_data (normalise fresh_args) (start example_files)))
   \<and> fit_epochs (hd (fit_calls (log (snd (run example_env fresh_args example_files))))) = 1
   \<and> fit_shuffle (hd (fit_calls (log (snd (run example_env fresh_args example_files))))) = ''batch''
   \<and> fit_validation_data (hd (fit_calls (log (snd (run example_env fresh_args example_files))))) = None
   \<and> h5_len (fit_x (hd (fit_calls (log (snd (run example_env fresh_args example_files)))))) = 16
   \<and> length (layers (fit_model (hd (fit_calls (log (snd (run example_env fresh_args example_files))))))) = 315
   \<and> layers (fit_model (hd (fit_calls (log (snd (run example_env fresh_args example_files)))))) ! 279 = False
   \<and> layers (fit_model (hd (fit_calls (log (snd (run example_env fresh_args example_files)))))) ! 280 = True"
proof -
  define L where "L = log (snd (run example_env fresh_args example_files))"
  from head_training_epoch [OF example_fresh example_fresh_loaded, of example_env, folded L_def]
  obtain before f m after where
    H: "L = before @ Fit f # after \<and> fit_calls before = []
      \<and> fit_epochs f = 1
      \<and> fit_x f = \<lparr>datapath = ''tiles.h5'', dataset = ''train_img'', h5_data = [100 ..< 120],
              h5_start = 0, h5_end = 16\<rparr>
      \<and> fit_y f = map (one_hot 2) [0, 1, 1, 0, 1, 0, 0, 1, 1, 0, 0, 1, 0, 1, 1, 0]
      \<and> fit_shuffle f = ''batch'' \<and> fit_validation_data f = None
      \<and> fit_batch_size f = batch_size fresh_args \<and> fit_callbacks f = []
      \<and> length (layers (fit_model f))
        = (if GPUs fresh_args \<le> 1 then base_layers example_env + 4
           else length (wrap_layers example_env (GPUs fresh_args)
                  (replicate (base_layers example_env + 4) True)))
      \<and> (\<forall>i < length (layers (fit_model f)). layers (fit_model f) ! i = (280 \<le> i))
      \<and> saved_to ''intermediate_model.hdf5'' after = [m]
      \<and> epochs_done m = epochs_done (fit_model f) + 1"
    by (elim exE) (erule that)
  from H have hd: "hd (fit_calls L) = f" by simp
  from H have len: "length (layers (fit_model f)) = 315"
    by (simp add: fresh_args_def example_env_def)
  from H have flags: "\<forall>i < length (layers (fit_model f)). layers (fit_model f) ! i = (280 \<le> i)"
    by (elim conjE)
  have "layers (fit_model f) ! 279 = False" "layers (fit_model f) ! 280 = True"
    using flags [rule_format, of 279] flags [rule_format, of 280] len by simp_all
  with H len example_fresh example_fresh_loaded show ?thesis
    unfolding L_def [symmetric] hd by (simp add: h5_len_def)
qed

lemma all_true_replicate: "\<forall>i < length (replicate n True). replicate n True ! i"
  by simp

text \<open>
  Claim C3.  When no input model is given and the data loads, the model is written to
  \<^verbatim>\<open>intermediate_model.hdf5\<close>, a path with no directory, and read back from there
  at once; the fit with validation data, phase 2, comes after both and trains the model
  that was read, whatever the other arguments are.
\<close>

theorem intermediate_written_then_reloaded:
  assumes "\<not> truthy (input_model a)"
    and "fst (load_data (normalise a) (start fs))
           = Inr (train_data, train_labels, val_data, val_labels)"
  shows "\<exists>before m between f after.
      log (snd (run env a fs))
        = before @ [Write ''intermediate_model.hdf5'' (SavedModel m),
                    Read ''intermediate_model.hdf5''] @ between @ Fit f # after
    \<and> saved_to ''intermediate_model.hdf5'' before = []
    \<and> map fit_validation_data (fit_calls before) = [None]
    \<and> fit_calls between = [] \<and> saved_to ''intermediate_model.hdf5'' between = []
    \<and> fit_validation_data f = Some (val_data, val_labels)
    \<and> fit_model f = (on_devices env (GPUs a) m)\<lparr>compiled := Some with_accuracy\<rparr>
    \<and> fit_calls after = []
    \<and> saved_to ''intermediate_model.hdf5'' after = []"
proof -
  from assms obtain k where L: "log (snd (run env a fs)) =
        (replicate k (Read (file_input a)) @ [Compile with_accuracy])
        @ Fit (head_call env (normalise a) train_data train_labels)
        # Compile loss_only
        # Write ''intermediate_model.hdf5'' (SavedModel (intermediate env (normalise a)))
        # Read ''intermediate_model.hdf5''
        # Compile with_accuracy
        # Fit (tune_call (normalise a) (on_devices env (GPUs a) (intermediate env (normalise a)))
                 (max 1 (epochs a - 1)) train_data train_labels val_data val_labels)
        # (map (Write (checkpoint_path (normalise a)))
             (checkpoints env (on_devices env (GPUs a) (intermediate env (normalise a)))
                (max 1 (epochs a - 1)))
           @ (if graphical_history a
              then [Write (history_path (normalise a))
                      (Figure (history_figure env
                         (on_devices env (GPUs a) (intermediate env (normalise a)))
                         (max 1 (epochs a - 1))))]
              else []))"
    by (rule run_fresh_split)
  show ?thesis
    apply (rule exI [of _ "replicate k (Read (file_input a)) @ [Compile with_accuracy,
             Fit (head_call env (normalise a) train_data train_labels), Compile loss_only]"])
    apply (rule exI [of _ "intermediate env (normalise a)"])
    apply (rule exI [of _ "[Compile with_accuracy]"])
    apply (rule exI [of _ "tune_call (normalise a)
             (on_devices env (GPUs a) (intermediate env (normalise a)))
             (max 1 (epochs a - 1)) train_data train_labels val_data val_labels"])
    apply (rule exI)
    apply (rule conjI)
     apply (subst L)
     apply simp
    using checkpoint_path_not_intermediate [of "normalise a"]
    apply simp
    done
qed

theorem intermediate_written_then_reloaded_witness:
  "\<not> truthy (input_model fresh_args)
   \<and> \<not> isl (fst (load_data (normalise fresh_args) (start example_files)))
   \<and> length (saved_to ''intermediate_model.hdf5''
               (log (snd (run example_env fresh_args example_files)))) = 1
   \<and> length (fit_calls (log (snd (run example_env fresh_args example_files)))) = 2
   \<and> Read ''intermediate_model.hdf5'' \<in> set (log (snd (run example_env fresh_args example_files)))"
proof -
  define L where "L = log (snd (run example_env fresh_args example_files))"
  from intermediate_written_then_reloaded
         [OF example_fresh example_fresh_loaded, of example_env, folded L_def]
  obtain before m between f after where
    H: "L = before @ [Write ''intermediate_model.hdf5'' (SavedModel m),
                    Read ''intermediate_model.hdf5''] @ between @ Fit f # after
    \<and> saved_to ''intermediate_model.hdf5'' before = []
    \<and> map fit_validation_data (fit_calls before) = [None]
    \<and> fit_calls between = [] \<and> saved_to ''intermediate_model.hdf5'' between = []
    \<and> fit_validation_data f
        = Some (\<lparr>datapath = ''tiles.h5'', dataset = ''val_img'', h5_data = [200 ..< 210],
                  h5_start = 0, h5_end = 4\<rparr>, map (one_hot 2) [0, 1, 0, 1])
    \<and> fit_model f = (on_devices example_env (GPUs fresh_args) m)\<lparr>compiled := Some with_accuracy\<rparr>
    \<and> fit_calls after = []
    \<and> saved_to ''intermediate_model.hdf5'' after = []"
    by (elim exE) (erule that)
  from H have "length (map fit_validation_data (fit_calls before)) = 1" by simp
  then have "length (fit_calls before) = 1" by simp
  with H example_fresh example_fresh_loaded show ?thesis
    unfolding L_def [symmetric] by simp
qed

lemma run_fresh_intermediate_file:
  assumes "\<not> truthy (input_model a)"
    and "fst (load_data (normalise a) (start fs))
           = Inr (train_data, train_labels, val_data, val_labels)"
  shows "files (snd (run env a fs)) ''intermediate_model.hdf5''
           = Some (SavedModel (intermediate env (normalise a)))"
proof -
  define n where "n = max 1 (epochs a - 1)"
  have pos: "0 < n" by (simp add: n_def)
  show ?thesis
    using pos checkpoint_path_not_intermediate [of "normalise a"]
      history_path_not_intermediate [of "normalise a"]
    unfolding run_fresh [OF assms] train_result n_def [symmetric]
    by (simp add: files_trained)
qed

lemma run_fresh_saved:
  assumes "\<not> truthy (input_model a)"
    and "fst (load_data (normalise a) (start fs))
           = Inr (train_data, train_labels, val_data, val_labels)"
  shows "saved_to ''intermediate_model.hdf5'' (log (snd (run env a fs)))
           = [intermediate env (normalise a)]"
proof -
  from assms obtain k where L: "log (snd (run env a fs)) =
        (replicate k (Read (file_input a)) @ [Compile with_accuracy])
        @ Fit (head_call env (normalise a) train_data train_labels)
        # Compile loss_only
        # Write ''intermediate_model.hdf5'' (SavedModel (intermediate env (normalise a)))
        # Read ''intermediate_model.hdf5''
        # Compile with_accuracy
        # Fit (tune_call (normalise a) (on_devices env (GPUs a) (intermediate env (normalise a)))
                 (max 1 (epochs a - 1)) train_data train_labels val_data val_labels)
        # (map (Write (checkpoint_path (normalise a)))
             (checkpoints env (on_devices env (GPUs a) (intermediate env (normalise a)))
                (max 1 (epochs a - 1)))
           @ (if graphical_history a
              then [Write (history_path (normalise a))
                      (Figure (history_figure env
                         (on_devices env (GPUs a) (intermediate env (normalise a)))
                         (max 1 (epochs a - 1))))]
              else []))"
    by (rule run_fresh_split)
  show ?thesis
    unfolding L using checkpoint_path_not_intermediate [of "normalise a"] by simp
qed

text \<open>
  Claim C7.  On the fresh path the first fit, which runs with the layers of index below
  280 frozen, is followed at once by a compile with the optimizer and the loss and no
  metric.  The model then saved has the same layers, as many as the network was built
  with; the flag of every layer of index below 280 has been set to true and the others
  are as they were at the fit, so that every layer is trainable; and it carries that
  compile configuration.
\<close>

theorem unfreeze_and_recompile:
  assumes "\<not> truthy (input_model a)"
    and "fst (load_data (normalise a) (start fs))
           = Inr (train_data, train_labels, val_data, val_labels)"
  shows "\<exists>before f m after.
      log (snd (run env a fs))
        = before @ Fit f
          # Compile \<lparr>optimizer = ''sgd'', loss = ''categorical_crossentropy'', metrics = []\<rparr>
          # Write ''intermediate_model.hdf5'' (SavedModel m) # after
    \<and> fit_calls before = []
    \<and> compiled (fit_model f)
        = Some \<lparr>optimizer = ''sgd'', loss = ''categorical_crossentropy'', metrics = [''accuracy'']\<rparr>
    \<and> length (layers (fit_model f))
        = (if GPUs a \<le> 1 then base_layers env + 4
           else length (wrap_layers env (GPUs a) (replicate (base_layers env + 4) True)))
    \<and> (\<forall>i < length (layers (fit_model f)). layers (fit_model f) ! i = (280 \<le> i))
    \<and> length (layers m) = length (layers (fit_model f))
    \<and> (\<forall>i < length (layers m). layers m ! i = (i < 280 \<or> layers (fit_model f) ! i))
    \<and> (\<forall>i < length (layers m). layers m ! i)
    \<and> layers m = replicate (length (layers (fit_model f))) True
    \<and> compiled m
        = Some \<lparr>optimizer = ''sgd'', loss = ''categorical_crossentropy'', metrics = []\<rparr>"
proof -
  from assms obtain k where L: "log (snd (run env a fs)) =
        (replicate k (Read (file_input a)) @ [Compile with_accuracy])
        @ Fit (head_call env (normalise a) train_data train_labels)
        # Compile loss_only
        # Write ''intermediate_model.hdf5'' (SavedModel (intermediate env (normalise a)))
        # Read ''intermediate_model.hdf5''
        # Compile with_accuracy
        # Fit (tune_call (normalise a) (on_devices env (GPUs a) (intermediate env (normalise a)))
                 (max 1 (epochs a - 1)) train_data train_labels val_data val_labels)
        # (map (Write (checkpoint_path (normalise a)))
             (checkpoints env (on_devices env (GPUs a) (intermediate env (normalise a)))
                (max 1 (epochs a - 1)))
           @ (if graphical_history a
              then [Write (history_path (normalise a))
                      (Figure (history_figure env
                         (on_devices env (GPUs a) (intermediate env (normalise a)))
                         (max 1 (epochs a - 1))))]
              else []))"
    by (rule run_fresh_split)
  define f where "f = head_call env (normalise a) train_data train_labels"
  define m where "m = intermediate env (normalise a)"
  have len: "length (layers (fit_model f))
        = (if GPUs a \<le> 1 then base_layers env + 4
           else length (wrap_layers env (GPUs a) (replicate (base_layers env + 4) True)))"
    unfolding f_def by (simp add: head_call_length)
  have frozen: "\<forall>i < length (layers (fit_model f)). layers (fit_model f) ! i = (280 \<le> i)"
    unfolding f_def by (simp add: head_call_layers)
  have thawed: "layers m = replicate (length (layers (fit_model f))) True"
    unfolding f_def m_def
    by (rule intermediate_simps(3) [of env "normalise a" train_data train_labels])
  have same: "length (layers m) = length (layers (fit_model f))"
    unfolding thawed by simp
  have step: "\<forall>i < length (layers m). layers m ! i = (i < 280 \<or> layers (fit_model f) ! i)"
  proof (intro allI impI)
    fix i assume i: "i < length (layers m)"
    with same have "layers (fit_model f) ! i = (280 \<le> i)" using frozen by simp
    moreover from i same have "layers m ! i" unfolding thawed by simp
    ultimately show "layers m ! i = (i < 280 \<or> layers (fit_model f) ! i)" by auto
  qed
  have all: "\<forall>i < length (layers m). layers m ! i"
    using same unfolding thawed by simp
  have cf: "compiled (fit_model f)
        = Some \<lparr>optimizer = ''sgd'', loss = ''categorical_crossentropy'', metrics = [''accuracy'']\<rparr>"
    unfolding f_def by (simp add: with_accuracy_def)
  have cm: "compiled m
        = Some \<lparr>optimizer = ''sgd'', loss = ''categorical_crossentropy'', metrics = []\<rparr>"
    unfolding m_def by (simp add: loss_only_def)
  have L': "log (snd (run env a fs))
        = (replicate k (Read (file_input a)) @ [Compile with_accuracy]) @ Fit f
          # Compile \<lparr>optimizer = ''sgd'', loss = ''categorical_crossentropy'', metrics = []\<rparr>
          # Write ''intermediate_model.hdf5'' (SavedModel m)
          # Read ''intermediate_model.hdf5''
          # Compile with_accuracy
          # Fit (tune_call (normalise a) (on_devices env (GPUs a) m)
                 (max 1 (epochs a - 1)) train_data train_labels val_data val_labels)
          # (map (Write (checkpoint_path (normalise a)))
             (checkpoints env (on_devices env (GPUs a) m) (max 1 (epochs a - 1)))
           @ (if graphical_history a
              then [Write (history_path (normalise a))
                      (Figure (history_figure env (on_devices env (GPUs a) m)
                         (max 1 (epochs a - 1))))]
              else []))"
    unfolding f_def m_def L by (simp add: loss_only_def)
  have nofit: "fit_calls (replicate k (Read (file_input a)) @ [Compile with_accuracy]) = []"
    by simp
  show ?thesis
    apply (rule exI [of _ "replicate k (Read (file_input a)) @ [Compile with_accuracy]"])
    apply (rule exI [of _ f])
    apply (rule exI [of _ m])
    apply (rule exI)
    apply (intro conjI)
             apply (rule L')
            apply (rule nofit)
           apply (rule cf)
          apply (rule len)
         apply (rule frozen)
        apply (rule same)
       apply (rule step)
      apply (rule all)
     apply (rule thawed)
    apply (rule cm)
    done
qed

theorem unfreeze_and_recompile_witness:
  "\<not> truthy (input_model fresh_args)
   \<and> \<not> isl (fst (load_data (normalise fresh_args) (start example_files)))
   \<and> map (\<lambda>m. metrics (the (compiled m)))
        (saved_to ''intermediate_model.hdf5''
           (log (snd (run example_env fresh_args example_files)))) = [[]]
   \<and> Compile \<lparr>optimizer = ''sgd'', loss = ''categorical_crossentropy'', metrics = []\<rparr>
        \<in> set (log (snd (run example_env fresh_args example_files)))
   \<and> map (\<lambda>m. length (layers m))
        (saved_to ''intermediate_model.hdf5''
           (log (snd (run example_env fresh_args example_files)))) = [315]
   \<and> map (\<lambda>m. [layers m ! 0, layers m ! 279, layers m ! 280, layers m ! 314])
        (saved_to ''intermediate_model.hdf5''
           (log (snd (run example_env fresh_args example_files)))) = [[True, True, True, True]]
   \<and> map (\<lambda>f. [layers (fit_model f) ! 0, layers (fit_model f) ! 279,
                layers (fit_model f) ! 280, layers (fit_model f) ! 314])
        (take 1 (fit_calls (log (snd (run example_env fresh_args example_files)))))
       = [[False, False, True, True]]"
proof -
  define L where "L = log (snd (run example_env fresh_args example_files))"
  from unfreeze_and_recompile [OF example_fresh example_fresh_loaded, of example_env, folded L_def]
  obtain before f m after where
    H: "L = before @ Fit f
          # Compile \<lparr>optimizer = ''sgd'', loss = ''categorical_crossentropy'', metrics = []\<rparr>
          # Write ''intermediate_model.hdf5'' (SavedModel m) # after"
      "fit_calls before = []"
      "length (layers (fit_model f))
        = (if GPUs fresh_args \<le> 1 then base_layers example_env + 4
           else length (wrap_layers example_env (GPUs fresh_args)
                  (replicate (base_layers example_env + 4) True)))"
      "\<forall>i < length (layers (fit_model f)). layers (fit_model f) ! i = (280 \<le> i)"
      "length (layers m) = length (layers (fit_model f))"
      "\<forall>i < length (layers m). layers m ! i = (i < 280 \<or> layers (fit_model f) ! i)"
      "compiled m
        = Some \<lparr>optimizer = ''sgd'', loss = ''categorical_crossentropy'', metrics = []\<rparr>"
    by (elim exE conjE) (erule that; assumption)
  have S: "saved_to ''intermediate_model.hdf5'' L = [intermediate example_env (normalise fresh_args)]"
    unfolding L_def by (rule run_fresh_saved [OF example_fresh example_fresh_loaded])
  have "m \<in> set (saved_to ''intermediate_model.hdf5'' L)" unfolding H(1) by simp
  with S have m: "intermediate example_env (normalise fresh_args) = m" by simp
  have lf: "length (layers (fit_model f)) = 315"
    using H(3) by (simp add: fresh_args_def example_env_def)
  have lm: "length (layers m) = 315" using H(5) lf by simp
  have ff: "layers (fit_model f) ! 0 = False" "layers (fit_model f) ! 279 = False"
    "layers (fit_model f) ! 280 = True" "layers (fit_model f) ! 314 = True"
    using H(4) [rule_format, of 0] H(4) [rule_format, of 279]
      H(4) [rule_format, of 280] H(4) [rule_format, of 314] lf by simp_all
  have fm: "layers m ! 0 = True" "layers m ! 279 = True"
    "layers m ! 280 = True" "layers m ! 314 = True"
    using H(6) [rule_format, of 0] H(6) [rule_format, of 279]
      H(6) [rule_format, of 280] H(6) [rule_format, of 314] lm ff by simp_all
  have 1: "map (\<lambda>m. metrics (the (compiled m))) (saved_to ''intermediate_model.hdf5'' L) = [[]]"
    unfolding S m by (simp add: H(7))
  have 2: "Compile \<lparr>optimizer = ''sgd'', loss = ''categorical_crossentropy'', metrics = []\<rparr>
        \<in> set L" unfolding H(1) by simp
  have 3: "\<not> isl (fst (load_data (normalise fresh_args) (start example_files)))"
    by (simp add: example_fresh_loaded)
  have 4: "map (\<lambda>m. length (layers m)) (saved_to ''intermediate_model.hdf5'' L) = [315]"
    unfolding S m by (simp add: lm)
  have 5: "map (\<lambda>m. [layers m ! 0, layers m ! 279, layers m ! 280, layers m ! 314])
        (saved_to ''intermediate_model.hdf5'' L) = [[True, True, True, True]]"
    unfolding S m by (simp add: fm)
  have "take 1 (fit_calls L) = [f]" unfolding H(1) by (simp add: H(2))
  then have 6: "map (\<lambda>f. [layers (fit_model f) ! 0, layers (fit_model f) ! 279,
                layers (fit_model f) ! 280, layers (fit_model f) ! 314])
        (take 1 (fit_calls L)) = [[False, False, True, True]]"
    by (simp add: ff)
  from example_fresh 3 1 2 4 5 6 show ?thesis unfolding L_def by (intro conjI)
qed

lemma run_fresh_calls:
  assumes "\<not> truthy (input_model a)"
    and "fst (load_data (normalise a) (start fs))
           = Inr (train_data, train_labels, val_data, val_labels)"
  shows "fit_calls (log (snd (run env a fs)))
     = [head_call env (normalise a) train_data train_labels,
        tune_call (normalise a) (on_devices env (GPUs a) (intermediate env (normalise a)))
          (max 1 (epochs a - 1)) train_data train_labels val_data val_labels]"
  using fit_calls_run [of env a fs] run_fresh_log(2) [OF assms, of env] assms
  by auto

text \<open>
  Claim C6, as amended.  The model written to \<^verbatim>\<open>intermediate_model.hdf5\<close> has been
  trained for exactly one epoch, with the layers of index below 280 frozen during that
  epoch, but when it is written every layer, the backbone included, is trainable again.
\<close>

theorem intermediate_checkpoint_state:
  assumes "\<not> truthy (input_model a)"
    and "fst (load_data (normalise a) (start fs))
           = Inr (train_data, train_labels, val_data, val_labels)"
  shows "\<exists>before f m after.
      log (snd (run env a fs))
        = before @ Fit f # Compile loss_only
          # Write ''intermediate_model.hdf5'' (SavedModel m) # after
    \<and> fit_calls before = []
    \<and> saved_to ''intermediate_model.hdf5'' before = []
    \<and> saved_to ''intermediate_model.hdf5'' after = []
    \<and> files (snd (run env a fs)) ''intermediate_model.hdf5'' = Some (SavedModel m)
    \<and> fit_epochs f = 1 \<and> fit_callbacks f = []
    \<and> (\<forall>i < length (layers (fit_model f)). layers (fit_model f) ! i = (280 \<le> i))
    \<and> epochs_done (fit_model f) = 0 \<and> epochs_done m = 1
    \<and> layers m = replicate (length (layers (fit_model f))) True"
proof -
  from assms obtain k where L: "log (snd (run env a fs)) =
        (replicate k (Read (file_input a)) @ [Compile with_accuracy])
        @ Fit (head_call env (normalise a) train_data train_labels)
        # Compile loss_only
        # Write ''intermediate_model.hdf5'' (SavedModel (intermediate env (normalise a)))
        # Read ''intermediate_model.hdf5''
        # Compile with_accuracy
        # Fit (tune_call (normalise a) (on_devices env (GPUs a) (intermediate env (normalise a)))
                 (max 1 (epochs a - 1)) train_data train_labels val_data val_labels)
        # (map (Write (checkpoint_path (normalise a)))
             (checkpoints env (on_devices env (GPUs a) (intermediate env (normalise a)))
                (max 1 (epochs a - 1)))
           @ (if graphical_history a
              then [Write (history_path (normalise a))
                      (Figure (history_figure env
                         (on_devices env (GPUs a) (intermediate env (normalise a)))
                         (max 1 (epochs a - 1))))]
              else []))"
    by (rule run_fresh_split)
  show ?thesis
    apply (rule exI [of _ "replicate k (Read (file_input a)) @ [Compile with_accuracy]"])
    apply (rule exI [of _ "head_call env (normalise a) train_data train_labels"])
    apply (rule exI [of _ "intermediate env (normalise a)"])
    apply (rule exI)
    apply (rule conjI [OF L])
    using checkpoint_path_not_intermediate [of "normalise a"]
    apply (simp add: head_call_layers run_fresh_intermediate_file [OF assms]
             intermediate_simps(3) [of env "normalise a" train_data train_labels])
    done
qed

theorem intermediate_checkpoint_state_witness:
  "\<not> truthy (input_model fresh_args)
   \<and> \<not> isl (fst (load_data (normalise fresh_args) (start example_files)))
   \<and> files (snd (run example_env fresh_args example_files)) ''intermediate_model.hdf5''
       = Some (SavedModel \<lparr>layers = replicate 315 True, compiled = Some loss_only,
                            epochs_done = 1\<rparr>)
   \<and> map (\<lambda>f. layers (fit_model f) ! 0)
        (fit_calls (log (snd (run example_env fresh_args example_files)))) = [False, True]"
proof -
  define L where "L = log (snd (run example_env fresh_args example_files))"
  define F where "F = files (snd (run example_env fresh_args example_files)) ''intermediate_model.hdf5''"
  from intermediate_checkpoint_state
         [OF example_fresh example_fresh_loaded, of example_env, folded L_def F_def]
  obtain before f m after where
    H: "L = before @ Fit f # Compile loss_only
          # Write ''intermediate_model.hdf5'' (SavedModel m) # after
    \<and> fit_calls before = []
    \<and> saved_to ''intermediate_model.hdf5'' before = []
    \<and> saved_to ''intermediate_model.hdf5'' after = []
    \<and> F = Some (SavedModel m)
    \<and> fit_epochs f = 1 \<and> fit_callbacks f = []
    \<and> (\<forall>i < length (layers (fit_model f)). layers (fit_model f) ! i = (280 \<le> i))
    \<and> epochs_done (fit_model f) = 0 \<and> epochs_done m = 1
    \<and> layers m = replicate (length (layers (fit_model f))) True"
    by (elim exE) (erule that)
  have S: "saved_to ''intermediate_model.hdf5'' L = [intermediate example_env (normalise fresh_args)]"
    unfolding L_def by (rule run_fresh_saved [OF example_fresh example_fresh_loaded])
  from H have "saved_to ''intermediate_model.hdf5'' L = [m]" by simp
  with S have m: "m = intermediate example_env (normalise fresh_args)" by simp
  have len: "length (layers (fit_model (head_call example_env (normalise fresh_args) td tlab))) = 315"
    for td tlab
    by (simp add: head_call_length fresh_args_def example_env_def)
  have im: "intermediate example_env (normalise fresh_args)
      = \<lparr>layers = replicate 315 True, compiled = Some loss_only, epochs_done = 1\<rparr>"
    using intermediate_simps(1,2) [of example_env "normalise fresh_args"]
      intermediate_simps(3) [of example_env "normalise fresh_args" undefined undefined]
    by (cases "intermediate example_env (normalise fresh_args)") (simp add: len)
  from H have 1: "F = Some (SavedModel \<lparr>layers = replicate 315 True, compiled = Some loss_only,
                            epochs_done = 1\<rparr>)"
    unfolding m im by (elim conjE)
  note calls = run_fresh_calls [OF example_fresh example_fresh_loaded, of example_env, folded L_def]
  have g: "GPUs fresh_args \<le> 1" by (simp add: fresh_args_def)
  have 2: "map (\<lambda>f. layers (fit_model f) ! 0) (fit_calls L) = [False, True]"
    unfolding calls
    by (simp add: head_call_layers len im on_devices_def Model_def g)
  have 3: "\<not> isl (fst (load_data (normalise fresh_args) (start example_files)))"
    by (simp add: example_fresh_loaded)
  from example_fresh 3 1 2 show ?thesis unfolding L_def F_def by (intro conjI)
qed

text \<open>
  In the fresh example run the model serialised to \<^verbatim>\<open>intermediate_model.hdf5\<close> has
  315 layers and all of them, the 280 first included, are marked trainable.
\<close>

theorem intermediate_checkpoint_state_counterexample:
  "map layers (saved_to ''intermediate_model.hdf5''
                 (log (snd (run example_env fresh_args example_files))))
     = [replicate 315 True]"
proof -
  have "length (layers (fit_model (head_call example_env (normalise fresh_args) td tlab))) = 315"
    for td tlab
    by (simp add: head_call_length fresh_args_def example_env_def)
  then show ?thesis
    unfolding run_fresh_saved [OF example_fresh example_fresh_loaded]
    by (simp add: intermediate_simps(3) [of _ _ undefined undefined])
qed

lemma example_restart_loaded:
  "fst (load_data (normalise restart_args) (start restart_files))
     = Inr (\<lparr>datapath = ''tiles.h5'', dataset = ''train_img'', h5_data = [100 ..< 120],
              h5_start = 0, h5_end = 20\<rparr>,
            map (one_hot 2) [0, 1, 1, 0, 1, 0, 0, 1, 1, 0, 0, 1, 0, 1, 1, 0, 1, 0, 0, 1],
            \<lparr>datapath = ''tiles.h5'', dataset = ''val_img'', h5_data = [200 ..< 210],
              h5_start = 0, h5_end = 10\<rparr>,
            map (one_hot 2) [0, 1, 0, 1, 1, 0, 1, 0, 0, 1])"
  by code_simp

lemma example_restart: "truthy (input_model restart_args)"
  by (simp add: truthy_def restart_args_def)

lemma example_restart_model:
  "restart_files (the (input_model restart_args))
     = Some (SavedModel \<lparr>layers = replicate 315 True, compiled = Some loss_only, epochs_done = 1\<rparr>)"
  by (simp add: restart_files_def restart_args_def)

lemma saved_to_none: "\<forall>c. Write p c \<notin> set evs \<Longrightarrow> saved_to p evs = []"
  by (induction p evs rule: saved_to.induct) auto

lemma write_in_checkpoints: "Write p c \<in> set (map (Write q) cs) \<Longrightarrow> p = q"
  by auto

text \<open>
  Claim C9, as amended.  On the resume path a run calls \<^verbatim>\<open>fit\<close> at most once, exactly
  once when it completes, with the requested number of epochs and with validation data;
  it never writes \<^verbatim>\<open>intermediate_model.hdf5\<close>, and it reads that file only when the
  file is itself the input model or the data file named on the command line.
\<close>

theorem resume_single_training_run:
  assumes "truthy (input_model a)"
  shows "length (fit_calls (log (snd (run env a fs)))) \<le> 1
    \<and> (\<forall>f \<in> set (fit_calls (log (snd (run env a fs)))).
          fit_epochs f = epochs a \<and> fit_validation_data f \<noteq> None)
    \<and> (fst (run env a fs) = Inr () \<longrightarrow> length (fit_calls (log (snd (run env a fs)))) = 1)
    \<and> (\<forall>c. Write ''intermediate_model.hdf5'' c \<notin> set (log (snd (run env a fs))))
    \<and> (Read ''intermediate_model.hdf5'' \<in> set (log (snd (run env a fs)))
         \<longrightarrow> input_model a = Some ''intermediate_model.hdf5''
             \<or> file_input a = ''intermediate_model.hdf5'')"
proof -
  from assms obtain p where p: "input_model a = Some p" "the (input_model a) = p"
    by (cases "input_model a") (auto simp: truthy_def)
  show ?thesis
  proof (cases a fs rule: load_cases)
    case (failed e)
    from run_load_failed_log [OF this, of env] show ?thesis by auto
  next
    case (loaded train_data train_labels val_data val_labels)
    show ?thesis
    proof (cases "\<exists>m. fs (the (input_model a)) = Some (SavedModel m)")
      case False
      from run_resume_failed_log [OF assms loaded False, of env] p show ?thesis by auto
    next
      case True
      then obtain m where m: "fs (the (input_model a)) = Some (SavedModel m)" ..
      from run_resume_log(2) [OF assms loaded m, of env] obtain k where
        L: "log (snd (run env a fs)) =
          replicate k (Read (file_input a))
          @ [Read (the (input_model a)), Compile with_accuracy,
             Fit (tune_call (normalise a) (on_devices env (GPUs a) m) (epochs a)
                    train_data train_labels val_data val_labels)]
          @ map (Write (checkpoint_path (normalise a)))
              (checkpoints env (on_devices env (GPUs a) m) (epochs a))
          @ (if graphical_history a \<and> 0 < epochs a
             then [Write (history_path (normalise a))
                     (Figure (history_figure env (on_devices env (GPUs a) m) (epochs a)))]
             else [])" ..
      have W: "Write ''intermediate_model.hdf5'' c \<notin> set (log (snd (run env a fs)))" for c
        unfolding L
        using checkpoint_path_not_intermediate [of "normalise a"]
          history_path_not_intermediate [of "normalise a"]
        by auto
      have R: "Read ''intermediate_model.hdf5'' \<in> set (log (snd (run env a fs)))
         \<Longrightarrow> input_model a = Some ''intermediate_model.hdf5''
             \<or> file_input a = ''intermediate_model.hdf5''"
        unfolding L using p by (auto split: if_splits)
      have F: "fit_calls (log (snd (run env a fs)))
          = [tune_call (normalise a) (on_devices env (GPUs a) m) (epochs a)
               train_data train_labels val_data val_labels]"
        unfolding L by simp
      show ?thesis using W R unfolding F by simp
    qed
  qed
qed

theorem resume_single_training_run_witness:
  "truthy (input_model resume_args)
   \<and> fst (run example_env resume_args example_files) = Inr ()
   \<and> length (fit_calls (log (snd (run example_env resume_args example_files)))) = 1
   \<and> fit_epochs (hd (fit_calls (log (snd (run example_env resume_args example_files))))) = 5
   \<and> saved_to ''intermediate_model.hdf5''
        (log (snd (run example_env resume_args example_files))) = []
   \<and> Read ''intermediate_model.hdf5''
        \<notin> set (log (snd (run example_env resume_args example_files)))"
proof -
  define L where "L = log (snd (run example_env resume_args example_files))"
  have ok: "fst (run example_env resume_args example_files) = Inr ()"
    using run_resume_log(1) [OF example_resume example_resume_loaded example_prior, of example_env]
    by (simp add: resume_args_def)
  note T = resume_single_training_run [OF example_resume, of example_env example_files,
      folded L_def]
  from T ok have len: "length (fit_calls L) = 1" by blast
  then obtain f where f: "fit_calls L = [f]" by (cases "fit_calls L") auto
  with T have e: "fit_epochs f = epochs resume_args" by simp
  from T have "\<forall>c. Write ''intermediate_model.hdf5'' c \<notin> set L" by blast
  then have s: "saved_to ''intermediate_model.hdf5'' L = []" by (rule saved_to_none)
  from T have "Read ''intermediate_model.hdf5'' \<in> set L
         \<longrightarrow> input_model resume_args = Some ''intermediate_model.hdf5''
             \<or> file_input resume_args = ''intermediate_model.hdf5''" by blast
  then have r: "Read ''intermediate_model.hdf5'' \<notin> set L"
    by (auto simp: resume_args_def)
  from example_resume ok len e s r show ?thesis
    unfolding L_def [symmetric] f by (simp add: resume_args_def)
qed

text \<open>
  Resuming from \<^verbatim>\<open>intermediate_model.hdf5\<close> itself reads that file, and the run
  completes.
\<close>

theorem resume_single_training_run_counterexample:
  "truthy (input_model restart_args)
   \<and> fst (run example_env restart_args restart_files) = Inr ()
   \<and> Read ''intermediate_model.hdf5''
        \<in> set (log (snd (run example_env restart_args restart_files)))"
proof -
  from run_resume_log [OF example_restart example_restart_loaded example_restart_model,
      of example_env]
  show ?thesis
    using example_restart by (auto simp: restart_args_def resume_args_def)
qed

lemma length_series [simp]: "length (series env model n k) = nat n"
  by (simp add: series_def)

lemma figures_run:
  assumes "(p, g) \<in> set (figures (log (snd (run env a fs))))"
  obtains model train_data train_labels val_data val_labels where
    "last (fit_calls (log (snd (run env a fs))))
       = tune_call (normalise a) model
           (if truthy (input_model a) then epochs a else max 1 (epochs a - 1))
           train_data train_labels val_data val_labels"
    and "fit_calls (log (snd (run env a fs))) \<noteq> []"
    and "0 < (if truthy (input_model a) then epochs a else max 1 (epochs a - 1))"
    and "p = history_path (normalise a)"
    and "g = history_figure env model
               (if truthy (input_model a) then epochs a else max 1 (epochs a - 1))"
    and "truthy (input_model a) \<or> epochs_done model = 1"
proof -
  define n where "n = (if truthy (input_model a) then epochs a else max 1 (epochs a - 1))"
  have ne: "fit_calls (log (snd (run env a fs))) \<noteq> []"
  proof
    assume e: "fit_calls (log (snd (run env a fs))) = []"
    show False
    proof (cases a fs rule: load_cases)
      case (failed e)
      from run_load_failed_log(2) [OF this, of env] assms show False by auto
    next
      case (loaded train_data train_labels val_data val_labels)
      show False
      proof (cases "truthy (input_model a)")
        case False
        from run_fresh_calls [OF False loaded, of env] e show False by simp
      next
        case True
        show False
        proof (cases "\<exists>m. fs (the (input_model a)) = Some (SavedModel m)")
          case False
          from run_resume_failed_log(2) [OF True loaded False, of env] assms show False by auto
        next
          case yes: True
          then obtain m where m: "fs (the (input_model a)) = Some (SavedModel m)" ..
          from run_resume_log(2) [OF True loaded m, of env] e show False by auto
        qed
      qed
    qed
  qed
  from ne obtain model pre train_data train_labels val_data val_labels where
    L: "log (snd (run env a fs)) =
       pre @ [Compile with_accuracy,
              Fit (tune_call (normalise a) model n train_data train_labels val_data val_labels)]
       @ map (Write (checkpoint_path (normalise a))) (checkpoints env model n)
       @ (if graphical_history a \<and> 0 < n
          then [Write (history_path (normalise a)) (Figure (history_figure env model n))]
          else [])"
    and pre: "figures pre = []"
    unfolding n_def by (rule run_trained)
  from assms have G: "graphical_history a \<and> 0 < n \<and> p = history_path (normalise a)
      \<and> g = history_figure env model n"
    unfolding L by (auto simp: pre split: if_splits)
  have last: "last (fit_calls (log (snd (run env a fs))))
      = tune_call (normalise a) model n train_data train_labels val_data val_labels"
    unfolding L by (simp split: if_splits)
  have fresh: "epochs_done model = 1" if f: "\<not> truthy (input_model a)"
  proof (cases a fs rule: load_cases)
    case (failed e)
    from run_load_failed_log(2) [OF this, of env] ne show ?thesis by auto
  next
    case (loaded td tlab vd vlab)
    from run_fresh_calls [OF f loaded, of env] last
    have "tune_call (normalise a) model n train_data train_labels val_data val_labels
        = tune_call (normalise a) (on_devices env (GPUs a) (intermediate env (normalise a)))
            (max 1 (epochs a - 1)) td tlab vd vlab"
      by simp
    then have "fit_model (tune_call (normalise a) model n train_data train_labels val_data val_labels)
        = fit_model (tune_call (normalise a) (on_devices env (GPUs a) (intermediate env (normalise a)))
            (max 1 (epochs a - 1)) td tlab vd vlab)"
      by simp
    then have "epochs_done (model\<lparr>compiled := Some with_accuracy\<rparr>)
        = epochs_done ((on_devices env (GPUs a) (intermediate env (normalise a)))\<lparr>compiled := Some with_accuracy\<rparr>)"
      by (simp only: tune_call_simps)
    then show ?thesis by simp
  qed
  show ?thesis
    using last ne G fresh unfolding n_def
    by (intro that [of model train_data train_labels val_data val_labels]) auto
qed

text \<open>
  Claim C10.  A figure is written only by the plot at the end of the script, to
  \<^verbatim>\<open>{output_directory}/{output_name}_training_history.png\<close>.  Its four curves are the
  values logged in the epochs of the last, fine-tuning call of \<^verbatim>\<open>fit\<close> and in no other
  epoch, so they and the epoch axis \<open>1 .. n\<close> have the length \<open>n\<close> that this call was
  given: \<open>max 1 (epochs - 1)\<close> on the fresh path, where the curves start after the one
  epoch of phase 1, and \<open>epochs\<close> on the resume path.
\<close>

theorem history_plot_axis:
  assumes "(p, g) \<in> set (figures (log (snd (run env a fs))))"
  shows "fit_calls (log (snd (run env a fs))) \<noteq> []
    \<and> p = rstrip CHR ''/'' (output_directory a) @ ''/'' @ output_name a @ ''_training_history.png''
    \<and> fit_epochs (last (fit_calls (log (snd (run env a fs)))))
        = (if truthy (input_model a) then epochs a else max 1 (epochs a - 1))
    \<and> xaxis g = [1 .. (if truthy (input_model a) then epochs a else max 1 (epochs a - 1))]
    \<and> map fst (curves g)
        = [''training loss'', ''validation loss'', ''training accuracy'', ''validation accuracy'']
    \<and> map (\<lambda>c. int (length (snd c))) (curves g)
        = replicate 4 (if truthy (input_model a) then epochs a else max 1 (epochs a - 1))
    \<and> map snd (curves g)
        = map (\<lambda>k. map (measure env k)
                 [Suc (epochs_done (fit_model (last (fit_calls (log (snd (run env a fs))))))) ..<
                  Suc (epochs_done (fit_model (last (fit_calls (log (snd (run env a fs))))))
                       + nat (fit_epochs (last (fit_calls (log (snd (run env a fs)))))))])
            [''loss'', ''val_loss'', ''acc'', ''val_acc'']
    \<and> (\<not> truthy (input_model a)
         \<longrightarrow> epochs_done (fit_model (last (fit_calls (log (snd (run env a fs)))))) = 1)"
proof -
  define n where "n = (if truthy (input_model a) then epochs a else max 1 (epochs a - 1))"
  obtain model train_data train_labels val_data val_labels where
    last: "last (fit_calls (log (snd (run env a fs))))
       = tune_call (normalise a) model n train_data train_labels val_data val_labels"
    and ne: "fit_calls (log (snd (run env a fs))) \<noteq> []"
    and pos: "0 < n"
    and p: "p = history_path (normalise a)"
    and g: "g = history_figure env model n"
    and fresh: "truthy (input_model a) \<or> epochs_done model = 1"
    by (rule figures_run [OF assms, folded n_def])
  show ?thesis
    unfolding n_def [symmetric] last
    using ne pos fresh
    by (auto simp add: p g history_path_def history_figure_def series_def numeral_eq_Suc)
qed

lemma run_fresh_figures:
  assumes "\<not> truthy (input_model a)"
    and "fst (load_data (normalise a) (start fs))
           = Inr (train_data, train_labels, val_data, val_labels)"
    and "graphical_history a"
  shows "figures (log (snd (run env a fs))) \<noteq> []"
proof -
  from assms(1,2) obtain k where L: "log (snd (run env a fs)) =
        (replicate k (Read (file_input a)) @ [Compile with_accuracy])
        @ Fit (head_call env (normalise a) train_data train_labels)
        # Compile loss_only
        # Write ''intermediate_model.hdf5'' (SavedModel (intermediate env (normalise a)))
        # Read ''intermediate_model.hdf5''
        # Compile with_accuracy
        # Fit (tune_call (normalise a) (on_devices env (GPUs a) (intermediate env (normalise a)))
                 (max 1 (epochs a - 1)) train_data train_labels val_data val_labels)
        # (map (Write (checkpoint_path (normalise a)))
             (checkpoints env (on_devices env (GPUs a) (intermediate env (normalise a)))
                (max 1 (epochs a - 1)))
           @ (if graphical_history a
              then [Write (history_path (normalise a))
                      (Figure (history_figure env
                         (on_devices env (GPUs a) (intermediate env (normalise a)))
                         (max 1 (epochs a - 1))))]
              else []))"
    by (rule run_fresh_split)
  show ?thesis unfolding L using assms(3) by simp
qed

lemma run_resume_figures:
  assumes "truthy (input_model a)"
    and "fst (load_data (normalise a) (start fs))
           = Inr (train_data, train_labels, val_data, val_labels)"
    and "fs (the (input_model a)) = Some (SavedModel m)"
    and "graphical_history a" and "0 < epochs a"
  shows "figures (log (snd (run env a fs))) \<noteq> []"
  using run_resume_log(2) [OF assms(1,2,3), of env] assms(4,5) by auto

theorem history_plot_axis_witness:
  "figures (log (snd (run example_env fresh_args example_files))) \<noteq> []
   \<and> fst (hd (figures (log (snd (run example_env fresh_args example_files)))))
       = ''out/run_training_history.png''
   \<and> xaxis (snd (hd (figures (log (snd (run example_env fresh_args example_files)))))) = [1 .. 2]
   \<and> map (\<lambda>c. int (length (snd c)))
        (curves (snd (hd (figures (log (snd (run example_env fresh_args example_files)))))))
       = [2, 2, 2, 2]
   \<and> figures (log (snd (run example_env resume_args example_files))) \<noteq> []
   \<and> fst (hd (figures (log (snd (run example_env resume_args example_files)))))
       = ''./_training_history.png''
   \<and> xaxis (snd (hd (figures (log (snd (run example_env resume_args example_files)))))) = [1 .. 5]
   \<and> map (\<lambda>c. int (length (snd c)))
        (curves (snd (hd (figures (log (snd (run example_env resume_args example_files)))))))
       = [5, 5, 5, 5]"
proof -
  define x where "x = hd (figures (log (snd (run example_env fresh_args example_files))))"
  define y where "y = hd (figures (log (snd (run example_env resume_args example_files))))"
  have 1: "figures (log (snd (run example_env fresh_args example_files))) \<noteq> []"
    by (rule run_fresh_figures [OF example_fresh example_fresh_loaded])
       (simp add: fresh_args_def)
  have 2: "figures (log (snd (run example_env resume_args example_files))) \<noteq> []"
    by (rule run_resume_figures [OF example_resume example_resume_loaded example_prior])
       (simp_all add: resume_args_def)
  from 1 have "(fst x, snd x) \<in> set (figures (log (snd (run example_env fresh_args example_files))))"
    by (simp add: x_def)
  note X = history_plot_axis [OF this]
  from 2 have "(fst y, snd y) \<in> set (figures (log (snd (run example_env resume_args example_files))))"
    by (simp add: y_def)
  note Y = history_plot_axis [OF this]
  have r1: "rstrip CHR ''/'' (output_directory fresh_args) @ ''/'' @ output_name fresh_args
       @ ''_training_history.png'' = ''out/run_training_history.png''"
    by (simp add: rstrip_def fresh_args_def)
  have r2: "rstrip CHR ''/'' (output_directory resume_args) @ ''/'' @ output_name resume_args
       @ ''_training_history.png'' = ''./_training_history.png''"
    by (simp add: rstrip_def resume_args_def)
  have n1: "(if truthy (input_model fresh_args) then epochs fresh_args
             else max 1 (epochs fresh_args - 1)) = 2"
    using example_fresh by (simp add: fresh_args_def)
  have n2: "(if truthy (input_model resume_args) then epochs resume_args
             else max 1 (epochs resume_args - 1)) = 5"
    using example_resume by (simp add: resume_args_def)
  from X have X': "fst x = ''out/run_training_history.png'' \<and> xaxis (snd x) = [1 .. 2]
      \<and> map (\<lambda>c. int (length (snd c))) (curves (snd x)) = replicate 4 2"
    unfolding r1 n1 by blast
  from Y have Y': "fst y = ''./_training_history.png'' \<and> xaxis (snd y) = [1 .. 5]
      \<and> map (\<lambda>c. int (length (snd c))) (curves (snd y)) = replicate 4 5"
    unfolding r2 n2 by blast
  from 1 2 X' Y' show ?thesis
    unfolding x_def [symmetric] y_def [symmetric] by (simp add: numeral_eq_Suc)
qed

lemma checkpoint_models_set:
  assumes "m \<in> set (checkpoint_models env model n)"
  shows "epochs_done model < epochs_done m \<and> epochs_done m \<le> epochs_done model + nat n
     \<and> (\<forall>i. epochs_done model < i \<and> i < epochs_done m
            \<longrightarrow> measure env ''val_acc'' i < measure env ''val_acc'' (epochs_done m))"
proof -
  from assms obtain j where j: "j \<in> set (improvements (measure env ''val_acc'') (epochs_done model) (nat n))"
    and m: "m = model\<lparr>compiled := Some with_accuracy, epochs_done := j\<rparr>"
    by (auto simp: checkpoint_models_def)
  from improvements_set [OF j] show ?thesis by (simp add: m)
qed

lemma checkpoint_models_sorted:
  "sorted_wrt (\<lambda>m m'. measure env ''val_acc'' (epochs_done m) < measure env ''val_acc'' (epochs_done m'))
     (checkpoint_models env model n)"
proof -
  have "sorted_wrt (\<lambda>i j. measure env ''val_acc'' i < measure env ''val_acc'' j)
          (improvements (measure env ''val_acc'') (epochs_done model) (nat n))"
    by (rule sorted_wrt_mono_rel [OF _ improvements_sorted]) simp
  then show ?thesis by (simp add: checkpoint_models_def sorted_wrt_map)
qed

lemma checkpoint_models_last:
  assumes "0 < n"
  shows "checkpoint_models env model n \<noteq> []
     \<and> (\<forall>i. epochs_done model < i \<and> i \<le> epochs_done model + nat n
            \<longrightarrow> measure env ''val_acc'' i
                \<le> measure env ''val_acc'' (epochs_done (last (checkpoint_models env model n))))"
proof -
  from assms have "0 < nat n" by simp
  from improvements_last [OF this, of "measure env ''val_acc''" "epochs_done model"]
  show ?thesis by (simp add: checkpoint_models_def last_map)
qed

text \<open>
  Claim C4.  The fine-tuning call of \<^verbatim>\<open>fit\<close> is given one checkpoint callback, on
  \<^verbatim>\<open>{output_directory}/{output_name}_model.h5\<close> and \<^verbatim>\<open>val_acc\<close>.  The models written
  to that path during a run have strictly increasing validation accuracy, each one above
  the accuracy of every earlier epoch of the call, so that no later and worse epoch
  replaces a saved model; and after a call of at least one epoch the file holds the last
  of them, whose validation accuracy is the highest of all the epochs of the call.
\<close>

theorem checkpoint_keeps_best:
  assumes "fit_calls (log (snd (run env a fs))) \<noteq> []"
  shows "let f = last (fit_calls (log (snd (run env a fs))));
             p = rstrip CHR ''/'' (output_directory a) @ ''/'' @ output_name a @ ''_model.h5'';
             ms = saved_to p (log (snd (run env a fs)));
             first = epochs_done (fit_model f);
             val_acc = measure env ''val_acc''
         in fit_callbacks f = [\<lparr>filepath = p, monitor = ''val_acc'', best = None\<rparr>]
          \<and> sorted_wrt (\<lambda>m m'. val_acc (epochs_done m) < val_acc (epochs_done m')) ms
          \<and> (\<forall>m \<in> set ms. first < epochs_done m
                \<and> epochs_done m \<le> first + nat (fit_epochs f)
                \<and> (\<forall>i. first < i \<and> i < epochs_done m \<longrightarrow> val_acc i < val_acc (epochs_done m)))
          \<and> (0 < fit_epochs f \<longrightarrow>
                ms \<noteq> []
              \<and> files (snd (run env a fs)) p = Some (SavedModel (last ms))
              \<and> (\<forall>i. first < i \<and> i \<le> first + nat (fit_epochs f)
                     \<longrightarrow> val_acc i \<le> val_acc (epochs_done (last ms))))"
proof -
  define n where "n = (if truthy (input_model a) then epochs a else max 1 (epochs a - 1))"
  obtain model pre train_data train_labels val_data val_labels where
    L: "log (snd (run env a fs)) =
       pre @ [Compile with_accuracy,
              Fit (tune_call (normalise a) model n train_data train_labels val_data val_labels)]
       @ map (Write (checkpoint_path (normalise a))) (checkpoints env model n)
       @ (if graphical_history a \<and> 0 < n
          then [Write (history_path (normalise a)) (Figure (history_figure env model n))]
          else [])"
    and pre: "saved_to (checkpoint_path (normalise a)) pre = []"
    and F: "checkpoints env model n = []
         \<or> files (snd (run env a fs)) (checkpoint_path (normalise a))
             = Some (last (checkpoints env model n))"
    by (rule run_trained [OF assms, folded n_def])
  have p: "rstrip CHR ''/'' (output_directory a) @ ''/'' @ output_name a @ ''_model.h5''
      = checkpoint_path (normalise a)"
    by (simp add: checkpoint_path_def)
  have last: "last (fit_calls (log (snd (run env a fs))))
      = tune_call (normalise a) model n train_data train_labels val_data val_labels"
    unfolding L by (simp split: if_splits)
  have ms: "saved_to (checkpoint_path (normalise a)) (log (snd (run env a fs)))
      = checkpoint_models env model n"
    unfolding L by (simp add: pre)
  have files: "files (snd (run env a fs)) (checkpoint_path (normalise a))
      = Some (SavedModel (last (checkpoint_models env model n)))" if "0 < n"
  proof -
    from checkpoint_models_last [OF that, of env model]
    have ne: "checkpoint_models env model n \<noteq> []" by simp
    then have "checkpoints env model n \<noteq> []" by (simp add: checkpoints_eq)
    with F ne show ?thesis by (simp add: checkpoints_eq last_map)
  qed
  show ?thesis
    unfolding Let_def p last ms
    using checkpoint_models_sorted [of env model n] checkpoint_models_set [of _ env model n]
      checkpoint_models_last [of n env model] files
    by (simp add: )
qed

text \<open>
  In the fresh example run the two fine-tuning epochs reach validation accuracies
  \<open>9 / 10\<close> and \<open>1 / 2\<close>: the checkpoint holds the model of the first of them.
\<close>

theorem checkpoint_keeps_best_witness:
  "fit_calls (log (snd (run example_env fresh_args example_files))) \<noteq> []
   \<and> saved_to ''out/run_model.h5'' (log (snd (run example_env fresh_args example_files))) \<noteq> []
   \<and> epochs_done (last (saved_to ''out/run_model.h5''
                            (log (snd (run example_env fresh_args example_files))))) = 2
   \<and> files (snd (run example_env fresh_args example_files)) ''out/run_model.h5''
       = Some (SavedModel (last (saved_to ''out/run_model.h5''
                                   (log (snd (run example_env fresh_args example_files))))))"
proof -
  define L where "L = log (snd (run example_env fresh_args example_files))"
  define ms where "ms = saved_to ''out/run_model.h5'' L"
  note calls = run_fresh_calls [OF example_fresh example_fresh_loaded, of example_env, folded L_def]
  have ne: "fit_calls L \<noteq> []" unfolding calls by simp
  have p: "rstrip CHR ''/'' (output_directory fresh_args) @ ''/'' @ output_name fresh_args
       @ ''_model.h5'' = ''out/run_model.h5''"
    by (simp add: rstrip_def fresh_args_def)
  have n: "fit_epochs (last (fit_calls L)) = 2"
    unfolding calls by (simp add: fresh_args_def)
  have e: "epochs_done (fit_model (last (fit_calls L))) = 1"
    unfolding calls by simp
  have v: "measure example_env ''val_acc'' i = (if i = 2 then 9 / 10 else 1 / 2)" for i
    by (simp add: example_env_def)
  from checkpoint_keeps_best [OF ne [unfolded L_def], folded L_def, unfolded Let_def p n e,
      folded ms_def]
  have T: "ms \<noteq> []
      \<and> files (snd (run example_env fresh_args example_files)) ''out/run_model.h5''
          = Some (SavedModel (last ms))
      \<and> (\<forall>i. 1 < i \<and> i \<le> 1 + nat 2
             \<longrightarrow> measure example_env ''val_acc'' i
                 \<le> measure example_env ''val_acc'' (epochs_done (last ms)))"
    by simp
  then have "measure example_env ''val_acc'' 2
      \<le> measure example_env ''val_acc'' (epochs_done (last ms))"
    by simp
  then have 2: "epochs_done (last ms) = 2"
    unfolding v by (simp split: if_splits)
  from ne T 2 show ?thesis unfolding L_def [symmetric] ms_def [symmetric] by simp
qed

lemma load_data_full:
  assumes t: "tiles a = None"
    and ok: "fst (load_data a w) = Inr (tdata, tlab, vdata, vlab)"
  shows "\<exists>arrays ys zs.
      files w (file_input a) = Some (Hdf5 arrays)
    \<and> map_of arrays ''train_labels'' = Some ys \<and> ys \<noteq> []
    \<and> tlab = map (one_hot (Max (set ys) + 1)) ys
    \<and> map_of arrays ''val_labels'' = Some zs \<and> zs \<noteq> []
    \<and> vlab = map (one_hot (Max (set zs) + 1)) zs"
proof -
  from ok obtain tdata' tlabm tlab' vdata' vlabm vlab' where
        tlabm: "fst (HDF5Matrix (file_input a) ''train_labels'' None
                  (emit (Read (file_input a)) w)) = Inr tlabm"
    and tlab: "to_categorical tlabm = Inr tlab'"
    and vlabm: "fst (HDF5Matrix (file_input a) ''val_labels'' None
                  (emit (Read (file_input a)) (emit (Read (file_input a))
                    (emit (Read (file_input a)) w)))) = Inr vlabm"
    and vlab: "to_categorical vlabm = Inr vlab'"
    and res: "(tdata, tlab, vdata, vlab) = (tdata', tlab', vdata', vlab')"
    unfolding load_data_def t option.case
    by (elim fst_bind_io_InrE) (simp add: )
  note A = HDF5Matrix_Inr [OF tlabm] HDF5Matrix_Inr [OF vlabm]
  from A(1) have s1: "h5_start tlabm = 0" by simp
  from A(2) have s2: "h5_start vlabm = 0" by simp
  note B = to_categorical_Inr [OF tlab s1] to_categorical_Inr [OF vlab s2]
  from A obtain arrays where arrays: "files w (file_input a) = Some (Hdf5 arrays)" by auto
  show ?thesis
    using res A B arrays by (auto simp: )
qed

lemma length_one_hot [simp]: "length (one_hot k c) = k"
  by (simp add: one_hot_def)

text \<open>
  Claim C5, as amended.  The label vectors of a split are as wide as the largest label in
  the rows that were loaded for it, plus one: \<^verbatim>\<open>to_categorical\<close> is not told the number
  of classes.  Train and validation vectors both have 2 classes whenever the largest
  label of each loaded slice is 1.
\<close>

theorem label_cardinality:
  assumes "fst (load_data a w) = Inr (train_data, train_labels, val_data, val_labels)"
  shows "\<exists>arrays all_train all_val ys zs.
      files w (file_input a) = Some (Hdf5 arrays)
    \<and> map_of arrays ''train_labels'' = Some all_train
    \<and> map_of arrays ''val_labels'' = Some all_val
    \<and> ys \<noteq> [] \<and> prefix ys all_train \<and> zs \<noteq> [] \<and> prefix zs all_val
    \<and> (tiles a = None \<longrightarrow> ys = all_train \<and> zs = all_val)
    \<and> train_labels = map (one_hot (Max (set ys) + 1)) ys
    \<and> val_labels = map (one_hot (Max (set zs) + 1)) zs
    \<and> (\<forall>row \<in> set train_labels. length row = Max (set ys) + 1)
    \<and> (\<forall>row \<in> set val_labels. length row = Max (set zs) + 1)
    \<and> (Max (set ys) = 1 \<and> Max (set zs) = 1
         \<longrightarrow> (\<forall>row \<in> set train_labels \<union> set val_labels. length row = 2))"
proof (cases "tiles a")
  case None
  from load_data_full [OF None assms] obtain arrays ys zs where
    "files w (file_input a) = Some (Hdf5 arrays)
    \<and> map_of arrays ''train_labels'' = Some ys \<and> ys \<noteq> []
    \<and> train_labels = map (one_hot (Max (set ys) + 1)) ys
    \<and> map_of arrays ''val_labels'' = Some zs \<and> zs \<noteq> []
    \<and> val_labels = map (one_hot (Max (set zs) + 1)) zs"
    by (elim exE) (erule that)
  then show ?thesis
    apply -
    apply (rule exI [of _ arrays], rule exI [of _ ys], rule exI [of _ zs])
    apply (rule exI [of _ ys], rule exI [of _ zs])
    apply (auto simp: None)
    done
next
  case (Some n)
  from load_data_subset [OF Some assms] obtain tf vf arrays ys zs where
    H: "files w (file_input a) = Some (Hdf5 arrays)"
      "map_of arrays ''train_labels'' = Some ys" "0 < tf" "tf \<le> int (length ys)"
      "train_labels = map (one_hot (Max (set (take (nat tf) ys)) + 1)) (take (nat tf) ys)"
      "map_of arrays ''val_labels'' = Some zs" "0 < vf" "vf \<le> int (length zs)"
      "val_labels = map (one_hot (Max (set (take (nat vf) zs)) + 1)) (take (nat vf) zs)"
    by (elim exE conjE) (erule that; assumption)
  have ne: "take (nat tf) ys \<noteq> []" "take (nat vf) zs \<noteq> []"
    using H(3,4,7,8) by auto
  show ?thesis
    using H(1,2,6) ne
    apply -
    apply (rule exI [of _ arrays], rule exI [of _ ys], rule exI [of _ zs])
    apply (rule exI [of _ "take (nat tf) ys"], rule exI [of _ "take (nat vf) zs"])
    apply (simp add: Some take_is_prefix)
    apply (subst (1 2 3) H(5), subst (1 2 3) H(9))
    apply auto
    done
qed

theorem label_cardinality_witness:
  "\<not> isl (fst (load_data (normalise fresh_args) (start example_files)))
   \<and> (case projr (fst (load_data (normalise fresh_args) (start example_files))) of
        (train_data, train_labels, val_data, val_labels) \<Rightarrow>
          map length train_labels = replicate 16 2 \<and> map length val_labels = replicate 4 2)"
proof -
  note ok = example_fresh_loaded
  from label_cardinality [OF ok] obtain ys zs where
    T: "map (one_hot 2) [0, 1, 1, 0, 1, 0, 0, 1, 1, 0, 0, 1, 0, 1, 1, 0]
          = map (one_hot (Max (set ys) + 1)) ys"
       "map (one_hot 2) [0, 1, 0, 1] = map (one_hot (Max (set zs) + 1)) zs"
       "Max (set ys) = 1 \<and> Max (set zs) = 1
         \<longrightarrow> (\<forall>row \<in> set (map (one_hot 2) [0, 1, 1, 0, 1, 0, 0, 1, 1, 0, 0, 1, 0, 1, 1, 0])
                       \<union> set (map (one_hot 2) [0, 1, 0, 1]). length row = 2)"
    by (elim exE conjE) (erule that; assumption)
  from T(1) have "map length (map (one_hot 2) [0, 1, 1, 0, 1, 0, 0, 1, 1, 0, 0, 1, 0, 1, 1, 0])
      = map length (map (one_hot (Max (set ys) + 1)) ys)" by simp
  then have "ys \<noteq> [] \<and> (\<forall>y \<in> set ys. Max (set ys) + 1 = 2)"
    by (cases ys) (auto simp: comp_def)
  then have 1: "Max (set ys) = 1" by (cases ys) auto
  from T(2) have "map length (map (one_hot 2) [0, 1, 0, 1])
      = map length (map (one_hot (Max (set zs) + 1)) zs)" by simp
  then have "zs \<noteq> [] \<and> (\<forall>y \<in> set zs. Max (set zs) + 1 = 2)"
    by (cases zs) (auto simp: comp_def)
  then have 2: "Max (set zs) = 1" by (cases zs) auto
  from T(3) 1 2 have "\<forall>row \<in> set (map (one_hot 2) [0, 1, 1, 0, 1, 0, 0, 1, 1, 0, 0, 1, 0, 1, 1, 0])
                       \<union> set (map (one_hot 2) [0, 1, 0, 1]). length row = 2"
    by blast
  moreover have "replicate 16 (2::nat) = [2, 2, 2, 2, 2, 2, 2, 2, 2, 2, 2, 2, 2, 2, 2, 2]"
    "replicate 4 (2::nat) = [2, 2, 2, 2]"
    by (simp_all add: numeral_eq_Suc)
  ultimately show ?thesis unfolding ok by simp
qed

text \<open>
  On five tiles the validation slice is the single row with label 0: its label vector has
  one class, while the train vectors have two.
\<close>

theorem label_cardinality_counterexample:
  "fst (load_data (normalise five_tiles_args) (start example_files))
     = Inr (\<lparr>datapath = ''tiles.h5'', dataset = ''train_img'', h5_data = [100 ..< 120],
              h5_start = 0, h5_end = 4\<rparr>,
            [[1, 0], [0, 1], [0, 1], [1, 0]],
            \<lparr>datapath = ''tiles.h5'', dataset = ''val_img'', h5_data = [200 ..< 210],
              h5_start = 0, h5_end = 1\<rparr>,
            [[1]])"
  by code_simp

end
